theory Spec2Isabelle
  imports Main "HOL-Library.Signed_Division"
begin

section \<open>Geometry: the integer points and rectangles the overlay computes with\<close>

text \<open>
  The overlay (\<^verbatim>\<open>modules/region_selector_with_drawing.py\<close>) does all of its geometry
  with the toolkit's integer point and rectangle classes. A rectangle stores its two
  corners \<open>(x1, y1)\<close> and \<open>(x2, y2)\<close>, both inclusive, so that
  \<open>right() = x2 = x + width - 1\<close> and \<open>bottom() = y2 = y + height - 1\<close>.
  The operations below are the ones the overlay calls, with the toolkit's (version 6)
  meaning. Coordinates are screen pixels, far from the 32-bit limits of the toolkit's
  integers, so they are modelled as unbounded integers.
\<close>

record QPoint =
  px :: int
  py :: int

record QSize =
  sw :: int
  sh :: int

record QRect =
  rx1 :: int
  ry1 :: int
  rx2 :: int
  ry2 :: int

definition mkPoint :: "int \<Rightarrow> int \<Rightarrow> QPoint" where
  "mkPoint x y = \<lparr>px = x, py = y\<rparr>"

text \<open>\<^verbatim>\<open>QPoint()\<close>, the null point, and \<^verbatim>\<open>isNull()\<close>.\<close>

definition nullPoint :: QPoint where
  "nullPoint = \<lparr>px = 0, py = 0\<rparr>"

definition isNull :: "QPoint \<Rightarrow> bool" where
  "isNull p = (px p = 0 \<and> py p = 0)"

definition padd :: "QPoint \<Rightarrow> QPoint \<Rightarrow> QPoint" where
  "padd p q = \<lparr>px = px p + px q, py = py p + py q\<rparr>"

definition psub :: "QPoint \<Rightarrow> QPoint \<Rightarrow> QPoint" where
  "psub p q = \<lparr>px = px p - px q, py = py p - py q\<rparr>"

definition manhattanLength :: "QPoint \<Rightarrow> int" where
  "manhattanLength p = \<bar>px p\<bar> + \<bar>py p\<bar>"

text \<open>\<^verbatim>\<open>QRect()\<close>, \<^verbatim>\<open>QRect(x, y, w, h)\<close>, \<^verbatim>\<open>QRect(topLeft, bottomRight)\<close> and
  \<^verbatim>\<open>QRect(topLeft, size)\<close>.\<close>

definition nullRect :: QRect where
  "nullRect = \<lparr>rx1 = 0, ry1 = 0, rx2 = - 1, ry2 = - 1\<rparr>"

definition mkRect :: "int \<Rightarrow> int \<Rightarrow> int \<Rightarrow> int \<Rightarrow> QRect" where
  "mkRect x y w h = \<lparr>rx1 = x, ry1 = y, rx2 = x + w - 1, ry2 = y + h - 1\<rparr>"

definition rectPP :: "QPoint \<Rightarrow> QPoint \<Rightarrow> QRect" where
  "rectPP p q = \<lparr>rx1 = px p, ry1 = py p, rx2 = px q, ry2 = py q\<rparr>"

definition rectPS :: "QPoint \<Rightarrow> QSize \<Rightarrow> QRect" where
  "rectPS p s = \<lparr>rx1 = px p, ry1 = py p, rx2 = px p + sw s - 1, ry2 = py p + sh s - 1\<rparr>"

definition left :: "QRect \<Rightarrow> int" where "left r = rx1 r"
definition top_r :: "QRect \<Rightarrow> int" where "top_r r = ry1 r"
definition right :: "QRect \<Rightarrow> int" where "right r = rx2 r"
definition bottom :: "QRect \<Rightarrow> int" where "bottom r = ry2 r"
definition width :: "QRect \<Rightarrow> int" where "width r = rx2 r - rx1 r + 1"
definition height :: "QRect \<Rightarrow> int" where "height r = ry2 r - ry1 r + 1"

definition rsize :: "QRect \<Rightarrow> QSize" where
  "rsize r = \<lparr>sw = width r, sh = height r\<rparr>"

definition topLeft :: "QRect \<Rightarrow> QPoint" where
  "topLeft r = \<lparr>px = rx1 r, py = ry1 r\<rparr>"

definition bottomRight :: "QRect \<Rightarrow> QPoint" where
  "bottomRight r = \<lparr>px = rx2 r, py = ry2 r\<rparr>"

text \<open>\<^verbatim>\<open>center()\<close> halves with the truncating division of C++.\<close>

definition center :: "QRect \<Rightarrow> QPoint" where
  "center r = \<lparr>px = (rx1 r + rx2 r) sdiv 2, py = (ry1 r + ry2 r) sdiv 2\<rparr>"

definition isEmpty :: "QRect \<Rightarrow> bool" where
  "isEmpty r = (rx1 r > rx2 r \<or> ry1 r > ry2 r)"

text \<open>The \<^verbatim>\<open>moveX\<close> operations translate the rectangle and keep its size; the
  \<^verbatim>\<open>setX\<close> operations move one edge and keep the opposite one.\<close>

definition moveLeft :: "int \<Rightarrow> QRect \<Rightarrow> QRect" where
  "moveLeft p r = r\<lparr>rx2 := rx2 r + (p - rx1 r), rx1 := p\<rparr>"

definition moveTop :: "int \<Rightarrow> QRect \<Rightarrow> QRect" where
  "moveTop p r = r\<lparr>ry2 := ry2 r + (p - ry1 r), ry1 := p\<rparr>"

definition moveRight :: "int \<Rightarrow> QRect \<Rightarrow> QRect" where
  "moveRight p r = r\<lparr>rx1 := rx1 r + (p - rx2 r), rx2 := p\<rparr>"

definition moveBottom :: "int \<Rightarrow> QRect \<Rightarrow> QRect" where
  "moveBottom p r = r\<lparr>ry1 := ry1 r + (p - ry2 r), ry2 := p\<rparr>"

definition setLeft :: "int \<Rightarrow> QRect \<Rightarrow> QRect" where "setLeft p r = r\<lparr>rx1 := p\<rparr>"
definition setTop :: "int \<Rightarrow> QRect \<Rightarrow> QRect" where "setTop p r = r\<lparr>ry1 := p\<rparr>"
definition setRight :: "int \<Rightarrow> QRect \<Rightarrow> QRect" where "setRight p r = r\<lparr>rx2 := p\<rparr>"
definition setBottom :: "int \<Rightarrow> QRect \<Rightarrow> QRect" where "setBottom p r = r\<lparr>ry2 := p\<rparr>"

definition setWidth :: "int \<Rightarrow> QRect \<Rightarrow> QRect" where
  "setWidth w r = r\<lparr>rx2 := rx1 r + w - 1\<rparr>"

definition setHeight :: "int \<Rightarrow> QRect \<Rightarrow> QRect" where
  "setHeight h r = r\<lparr>ry2 := ry1 r + h - 1\<rparr>"

definition setTopLeft :: "QPoint \<Rightarrow> QRect \<Rightarrow> QRect" where
  "setTopLeft p r = r\<lparr>rx1 := px p, ry1 := py p\<rparr>"

definition setTopRight :: "QPoint \<Rightarrow> QRect \<Rightarrow> QRect" where
  "setTopRight p r = r\<lparr>rx2 := px p, ry1 := py p\<rparr>"

definition setBottomLeft :: "QPoint \<Rightarrow> QRect \<Rightarrow> QRect" where
  "setBottomLeft p r = r\<lparr>rx1 := px p, ry2 := py p\<rparr>"

definition setBottomRight :: "QPoint \<Rightarrow> QRect \<Rightarrow> QRect" where
  "setBottomRight p r = r\<lparr>rx2 := px p, ry2 := py p\<rparr>"

definition adjusted :: "int \<Rightarrow> int \<Rightarrow> int \<Rightarrow> int \<Rightarrow> QRect \<Rightarrow> QRect" where
  "adjusted dx1 dy1 dx2 dy2 r =
     \<lparr>rx1 = rx1 r + dx1, ry1 = ry1 r + dy1, rx2 = rx2 r + dx2, ry2 = ry2 r + dy2\<rparr>"

text \<open>\<^verbatim>\<open>normalized()\<close> swaps the corners of a rectangle of negative width or height,
  turning the exclusive corners into inclusive ones.\<close>

definition normalized :: "QRect \<Rightarrow> QRect" where
  "normalized r =
     (let r1 = (if rx2 r < rx1 r then r\<lparr>rx1 := rx2 r + 1, rx2 := rx1 r - 1\<rparr> else r)
      in (if ry2 r < ry1 r then r1\<lparr>ry1 := ry2 r + 1, ry2 := ry1 r - 1\<rparr> else r1))"

text \<open>\<^verbatim>\<open>contains(point)\<close>: both edges are inclusive; a rectangle of negative extent
  is read with its corners swapped.\<close>

definition contains :: "QRect \<Rightarrow> QPoint \<Rightarrow> bool" where
  "contains r p =
     (let l = (if rx2 r < rx1 r - 1 then rx2 r + 1 else rx1 r);
          rr = (if rx2 r < rx1 r - 1 then rx1 r - 1 else rx2 r);
          t = (if ry2 r < ry1 r - 1 then ry2 r + 1 else ry1 r);
          b = (if ry2 r < ry1 r - 1 then ry1 r - 1 else ry2 r)
      in l \<le> px p \<and> px p \<le> rr \<and> t \<le> py p \<and> py p \<le> b)"

section \<open>Clamping a rectangle to the screen\<close>

definition MIN_SELECTION_SIZE :: int where
  "MIN_SELECTION_SIZE = 20"

text \<open>
  \<^verbatim>\<open>_constrain_to_screen(rect)\<close>: the position is constrained first, then the minimum
  size is enforced, then the right and bottom edges are checked once more. The steps
  run in the source's order, each on the result of the one before.
\<close>

definition constrain_to_screen :: "QRect \<Rightarrow> QRect \<Rightarrow> QRect" where
  "constrain_to_screen screen_rect rect =
     (let c0 = rect;
          c1 = (if left c0 < 0 then moveLeft 0 c0 else c0);
          c2 = (if top_r c1 < 0 then moveTop 0 c1 else c1);
          c3 = (if right c2 > width screen_rect then moveRight (width screen_rect) c2 else c2);
          c4 = (if bottom c3 > height screen_rect then moveBottom (height screen_rect) c3 else c3);
          c5 = (if width c4 < MIN_SELECTION_SIZE then setWidth MIN_SELECTION_SIZE c4 else c4);
          c6 = (if height c5 < MIN_SELECTION_SIZE then setHeight MIN_SELECTION_SIZE c5 else c5);
          c7 = (if right c6 > width screen_rect
                then moveLeft (width screen_rect - width c6) c6 else c6);
          c8 = (if bottom c7 > height screen_rect
                then moveTop (height screen_rect - height c7) c7 else c7)
      in c8)"

text \<open>
  The eight resize handles of the selection, named as the keys of the dictionary
  \<^verbatim>\<open>_get_resize_handles\<close> builds. \<^verbatim>\<open>_resize_selection\<close> tests the handle's name for
  the substrings \<^verbatim>\<open>'left'\<close>, \<^verbatim>\<open>'right'\<close>, \<^verbatim>\<open>'top'\<close> and \<^verbatim>\<open>'bottom'\<close>.
\<close>

datatype handle = top_left | top_right | bottom_left | bottom_right
  | h_top | h_bottom | h_left | h_right

fun has_left :: "handle \<Rightarrow> bool" where
  "has_left top_left = True" | "has_left bottom_left = True" | "has_left h_left = True"
| "has_left _ = False"

fun has_right :: "handle \<Rightarrow> bool" where
  "has_right top_right = True" | "has_right bottom_right = True" | "has_right h_right = True"
| "has_right _ = False"

fun has_top :: "handle \<Rightarrow> bool" where
  "has_top top_left = True" | "has_top top_right = True" | "has_top h_top = True"
| "has_top _ = False"

fun has_bottom :: "handle \<Rightarrow> bool" where
  "has_bottom bottom_left = True" | "has_bottom bottom_right = True" | "has_bottom h_bottom = True"
| "has_bottom _ = False"

text \<open>The rectangle \<^verbatim>\<open>_resize_selection(pos)\<close> stores into \<^verbatim>\<open>selection_rect\<close>, for
  the handle of the gesture.\<close>

definition resize_rect :: "QRect \<Rightarrow> handle \<Rightarrow> QRect \<Rightarrow> QPoint \<Rightarrow> QRect" where
  "resize_rect screen_rect h selection_rect pos =
     (let r0 = selection_rect;
          r1 = (if has_left h then setLeft (px pos) r0 else r0);
          r2 = (if has_right h then setRight (px pos) r1 else r1);
          r3 = (if has_top h then setTop (py pos) r2 else r2);
          r4 = (if has_bottom h then setBottom (py pos) r3 else r3)
      in constrain_to_screen screen_rect (normalized r4))"


section \<open>The drawing items and the overlay's state\<close>

text \<open>
  The tools of the toolbar (\<^verbatim>\<open>current_tool\<close>, \<^verbatim>\<open>tool_type\<close>), a colour as its four
  channels, and the class \<^verbatim>\<open>DrawingItem\<close>. Python strings are lists of characters;
  \<^verbatim>\<open>len\<close> and the slices count characters. The field \<^verbatim>\<open>width\<close> of an item is
  \<open>pen_width\<close> here, and \<^verbatim>\<open>top()\<close> of a rectangle is \<open>top_r\<close>, since \<open>width\<close> is
  the width of a rectangle and \<open>top\<close> is a constant of HOL.
\<close>

datatype tool = select | pen | rectangle | circle | arrow | text_tool

datatype size_mode = auto_mode | custom_mode

type_synonym QColor = "int \<times> int \<times> int \<times> int"

record DrawingItem =
  tool_type :: tool
  color :: QColor
  pen_width :: int
  points :: "QPoint list"
  text_content :: string
  text_size_mode :: size_mode
  custom_font_size :: int
  was_manually_resized :: bool
  initial_font_size :: int

text \<open>\<^verbatim>\<open>DrawingItem.__init__(tool_type, color, width)\<close>.\<close>

definition DrawingItem_init :: "tool \<Rightarrow> QColor \<Rightarrow> int \<Rightarrow> DrawingItem" where
  "DrawingItem_init t c w =
     \<lparr>tool_type = t, color = c, pen_width = w, points = [], text_content = [],
      text_size_mode = auto_mode, custom_font_size = 14, was_manually_resized = False,
      initial_font_size = (if w > 0 then w else 14)\<rparr>"

definition add_point :: "QPoint \<Rightarrow> DrawingItem \<Rightarrow> DrawingItem" where
  "add_point p it = it\<lparr>points := points it @ [p]\<rparr>"

text \<open>
  Drawing items are objects: the lists of the overlay hold references to them, two
  items are the same only if they are the same object (the class defines no equality),
  and a change to an item is seen through every list that holds it. The model keeps
  the objects in a store, \<open>objs\<close>, and a reference is an index into it; creating an
  item appends it to the store.

  The single-shot timer of the long-press detection is its state (running or not) and
  the item its callback passes on: the item being edited at the time it fires, or the
  item under the pointer at the press.
\<close>

datatype timer_target = editing_target | item_target nat

record QTimer =
  isActive :: bool
  target :: timer_target

datatype text_handle = h_tl | h_tr | h_bl | h_br | h_tm | h_bm | h_lm | h_rm

datatype action = copy_action | save_action | cancel_action

record overlay =
  screen_rect :: QRect
  start_point :: QPoint
  end_point :: QPoint
  selecting :: bool
  selection_rect :: QRect
  result :: "(((int \<times> int \<times> int \<times> int) option) \<times> action) option"
  closed :: bool
  dragging :: bool
  resizing :: bool
  resize_handle :: "handle option"
  drag_offset :: QPoint
  hover_handle :: "handle option"
  drawing_mode :: bool
  current_tool :: tool
  objs :: "DrawingItem list"
  drawing_items :: "nat list"
  current_drawing_item :: "nat option"
  drawing_start_point :: "QPoint option"
  drawing_color :: QColor
  drawing_width :: int
  undo_stack :: "nat list"
  redo_stack :: "nat list"
  text_input_mode :: bool
  active_text_item :: "nat option"
  text_dragging :: bool
  text_resizing :: bool
  text_drag_start :: QPoint
  text_resize_handle :: "text_handle option"
  inline_editing :: bool
  editing_text_item :: "nat option"
  text_input_buffer :: string
  cursor_position :: nat
  last_click_time :: int
  last_click_pos :: QPoint
  preedit_text :: string
  preedit_cursor_pos :: nat
  text_selection_start :: nat
  text_selection_end :: nat
  text_press_timer :: "QTimer option"
  text_press_start_pos :: QPoint
  is_long_pressing :: bool
  text_tool_start_pos :: QPoint
  text_tool_is_dragging :: bool
  clipboard :: string

text \<open>The state \<^verbatim>\<open>__init__\<close> sets up, on a screen of the given geometry (which
  \<^verbatim>\<open>select_region\<close> reads before the overlay is shown).\<close>

definition overlay_init :: "QRect \<Rightarrow> overlay" where
  "overlay_init scr =
     \<lparr>screen_rect = scr, start_point = nullPoint, end_point = nullPoint, selecting = False,
      selection_rect = nullRect, result = None, closed = False, dragging = False,
      resizing = False, resize_handle = None, drag_offset = nullPoint, hover_handle = None,
      drawing_mode = False, current_tool = select, objs = [], drawing_items = [],
      current_drawing_item = None, drawing_start_point = None,
      drawing_color = (255, 0, 0, 255), drawing_width = 3, undo_stack = [], redo_stack = [],
      text_input_mode = False, active_text_item = None, text_dragging = False,
      text_resizing = False, text_drag_start = nullPoint, text_resize_handle = None,
      inline_editing = False, editing_text_item = None, text_input_buffer = [],
      cursor_position = 0, last_click_time = 0, last_click_pos = nullPoint,
      preedit_text = [], preedit_cursor_pos = 0, text_selection_start = 0,
      text_selection_end = 0, text_press_timer = None, text_press_start_pos = nullPoint,
      is_long_pressing = False, text_tool_start_pos = nullPoint,
      text_tool_is_dragging = False, clipboard = []\<rparr>"

text \<open>Creating an item: the new object's reference and the state that holds it.\<close>

definition new_item :: "DrawingItem \<Rightarrow> overlay \<Rightarrow> nat \<times> overlay" where
  "new_item it s = (length (objs s), s\<lparr>objs := objs s @ [it]\<rparr>)"

definition upd_item :: "nat \<Rightarrow> (DrawingItem \<Rightarrow> DrawingItem) \<Rightarrow> overlay \<Rightarrow> overlay" where
  "upd_item r f s = s\<lparr>objs := (objs s)[r := f (objs s ! r)]\<rparr>"

text \<open>The rectangle of an item's first and last point, as every user of a text box
  computes it: \<^verbatim>\<open>QRect(item.points[0], item.points[-1]).normalized()\<close>.\<close>

definition item_rect :: "DrawingItem \<Rightarrow> QRect" where
  "item_rect it = normalized (rectPP (points it ! 0) (last (points it)))"


section \<open>Undo and redo\<close>

text \<open>
  A finished gesture is committed by three statements, the same in
  \<^verbatim>\<open>mouseReleaseEvent\<close> and in \<^verbatim>\<open>_handle_text_input\<close>: the item is appended to
  \<^verbatim>\<open>drawing_items\<close> and to \<^verbatim>\<open>undo_stack\<close>, and \<^verbatim>\<open>redo_stack\<close> is cleared.
  \<^verbatim>\<open>list.remove\<close> deletes the first element equal to its argument, which is
  \<^const>\<open>remove1\<close>; \<^verbatim>\<open>list.pop()\<close> takes the last element.
\<close>

definition commit_item :: "nat \<Rightarrow> overlay \<Rightarrow> overlay" where
  "commit_item r s =
     s\<lparr>drawing_items := drawing_items s @ [r],
       undo_stack := undo_stack s @ [r],
       redo_stack := []\<rparr>"

definition undo_drawing :: "overlay \<Rightarrow> overlay" where
  "undo_drawing s =
     (if undo_stack s \<noteq> [] then
        (let item = last (undo_stack s);
             s1 = s\<lparr>undo_stack := butlast (undo_stack s)\<rparr>;
             s2 = s1\<lparr>redo_stack := redo_stack s1 @ [item]\<rparr>
         in (if item \<in> set (drawing_items s2)
             then s2\<lparr>drawing_items := remove1 item (drawing_items s2)\<rparr> else s2))
      else s)"

definition redo_drawing :: "overlay \<Rightarrow> overlay" where
  "redo_drawing s =
     (if redo_stack s \<noteq> [] then
        (let item = last (redo_stack s);
             s1 = s\<lparr>redo_stack := butlast (redo_stack s)\<rparr>;
             s2 = s1\<lparr>undo_stack := undo_stack s1 @ [item]\<rparr>
         in s2\<lparr>drawing_items := drawing_items s2 @ [item]\<rparr>)
      else s)"

section \<open>The inline text editor\<close>

text \<open>
  \<^verbatim>\<open>str.strip()\<close> removes the white space at both ends, and \<^verbatim>\<open>str.isprintable()\<close>
  holds when every character is printable; both are given for the characters a
  \<^typ>\<open>char\<close> can hold. A slice \<^verbatim>\<open>s[a:b]\<close> with \<open>0 \<le> a, b\<close> clips to the string.
\<close>

definition isspace :: "char \<Rightarrow> bool" where
  "isspace c =
     (let n = (of_char c :: nat)
      in (9 \<le> n \<and> n \<le> 13) \<or> (28 \<le> n \<and> n \<le> 32) \<or> n = 133 \<or> n = 160)"

definition strip :: "string \<Rightarrow> string" where
  "strip s = rev (dropWhile isspace (rev (dropWhile isspace s)))"

definition isprintable :: "string \<Rightarrow> bool" where
  "isprintable s =
     list_all (\<lambda>c. let n = (of_char c :: nat)
                    in (32 \<le> n \<and> n \<le> 126) \<or> (161 \<le> n \<and> n \<noteq> 173)) s"

definition slice :: "nat \<Rightarrow> nat \<Rightarrow> 'a list \<Rightarrow> 'a list" where
  "slice a b xs = take (b - a) (drop a xs)"

definition start_inline_text_editing :: "nat \<Rightarrow> overlay \<Rightarrow> overlay" where
  "start_inline_text_editing r s =
     s\<lparr>inline_editing := True,
       editing_text_item := Some r,
       text_input_buffer := text_content (objs s ! r),
       cursor_position := length (text_content (objs s ! r))\<rparr>"

definition finish_inline_text_editing :: "overlay \<Rightarrow> overlay" where
  "finish_inline_text_editing s =
     (let s1 =
        (case editing_text_item s of
           None \<Rightarrow> s
         | Some r \<Rightarrow>
             if inline_editing s then
               (if strip (text_input_buffer s) \<noteq> [] then
                  upd_item r (\<lambda>it. it\<lparr>text_content := text_input_buffer s\<rparr>) s
                else
                  (let s2 = (if r \<in> set (drawing_items s)
                             then s\<lparr>drawing_items := remove1 r (drawing_items s)\<rparr> else s)
                   in (if r \<in> set (undo_stack s2)
                       then s2\<lparr>undo_stack := remove1 r (undo_stack s2)\<rparr> else s2)))
             else s)
      in s1\<lparr>inline_editing := False, editing_text_item := None,
            text_input_buffer := [], cursor_position := 0\<rparr>)"

text \<open>\<^verbatim>\<open>_handle_text_input(pos)\<close>: a click with the text tool creates a text box of
  the default size at the click, commits it and starts editing it.\<close>

definition handle_text_input :: "QPoint \<Rightarrow> overlay \<Rightarrow> overlay" where
  "handle_text_input pos s =
     (let text_item = DrawingItem_init text_tool (drawing_color s) (drawing_width s);
          text_item = add_point pos text_item;
          default_end = mkPoint (px pos + 250) (py pos + 80);
          text_item = add_point default_end text_item;
          text_item = text_item\<lparr>text_content := []\<rparr>;
          (r, s1) = new_item text_item s;
          s2 = commit_item r s1
      in start_inline_text_editing r s2)"

text \<open>Closing the overlay: \<^verbatim>\<open>_cancel_selection\<close> and \<^verbatim>\<open>_confirm_selection\<close> store the
  result and close the window. (The file the composite image is saved to is not part
  of the model.)\<close>

definition close_app :: "overlay \<Rightarrow> overlay" where
  "close_app s = s\<lparr>closed := True\<rparr>"

definition cancel_selection :: "overlay \<Rightarrow> overlay" where
  "cancel_selection s = close_app (s\<lparr>result := Some (None, cancel_action)\<rparr>)"

definition confirm_selection :: "overlay \<Rightarrow> overlay" where
  "confirm_selection s =
     (if \<not> isEmpty (selection_rect s) then
        (let w = width (selection_rect s); h = height (selection_rect s)
         in if w \<le> 0 \<or> h \<le> 0 then close_app (s\<lparr>result := None\<rparr>)
            else close_app (s\<lparr>result :=
                   Some (Some (rx1 (selection_rect s), ry1 (selection_rect s), w, h), copy_action)\<rparr>))
      else close_app (s\<lparr>result := None\<rparr>))"

datatype key = Key_Escape | Key_Return | Key_Enter | Key_A | Key_C | Key_V
  | Key_Backspace | Key_Delete | Key_Left | Key_Right | Key_Up | Key_Down | Key_Other

datatype modifier = NoModifier | ShiftModifier | ControlModifier | OtherModifiers

record QKeyEvent =
  key :: key
  modifiers :: modifier
  ev_text :: string

text \<open>Replacing the selection by a string, or inserting the string at the cursor when
  nothing is selected: the statements shared, word for word, by the paste and the
  printable-character branches of \<^verbatim>\<open>keyPressEvent\<close>, up to and including the
  assignment that collapses the selection onto the cursor.\<close>

definition insert_text :: "string \<Rightarrow> overlay \<Rightarrow> overlay" where
  "insert_text txt s =
     (let s1 =
        (if text_selection_start s \<noteq> text_selection_end s then
           (let start = min (text_selection_start s) (text_selection_end s);
                end_sel = max (text_selection_start s) (text_selection_end s)
            in s\<lparr>text_input_buffer :=
                    take start (text_input_buffer s) @ txt @ drop end_sel (text_input_buffer s),
                  cursor_position := start + length txt\<rparr>)
         else
           s\<lparr>text_input_buffer :=
                take (cursor_position s) (text_input_buffer s) @ txt
                  @ drop (cursor_position s) (text_input_buffer s),
              cursor_position := cursor_position s + length txt\<rparr>)
      in s1\<lparr>text_selection_start := cursor_position s1,
            text_selection_end := cursor_position s1\<rparr>)"

text \<open>Deleting the selection (the first branch of Backspace and of Delete).\<close>

definition delete_selection :: "overlay \<Rightarrow> overlay" where
  "delete_selection s =
     (let start = min (text_selection_start s) (text_selection_end s);
          end_sel = max (text_selection_start s) (text_selection_end s)
      in s\<lparr>text_input_buffer :=
              take start (text_input_buffer s) @ drop end_sel (text_input_buffer s),
            cursor_position := start,
            text_selection_start := start, text_selection_end := start\<rparr>)"

text \<open>The Up and Down arrows of \<^verbatim>\<open>keyPressEvent\<close>: the size the step starts from is
  the item's custom size, or its initial size when the item is not in custom mode.\<close>

definition font_step_up :: "DrawingItem \<Rightarrow> DrawingItem" where
  "font_step_up it =
     (let current_size = custom_font_size it;
          current_size = (if text_size_mode it \<noteq> custom_mode
                          then initial_font_size it else current_size);
          new_size = min 100 (current_size + 2)
      in it\<lparr>text_size_mode := custom_mode, custom_font_size := new_size\<rparr>)"

definition font_step_down :: "DrawingItem \<Rightarrow> DrawingItem" where
  "font_step_down it =
     (let current_size = custom_font_size it;
          current_size = (if text_size_mode it \<noteq> custom_mode
                          then initial_font_size it else current_size);
          new_size = max 8 (current_size - 2)
      in it\<lparr>text_size_mode := custom_mode, custom_font_size := new_size\<rparr>)"

text \<open>
  \<^verbatim>\<open>keyPressEvent\<close>. Escape and Enter are handled first; the editing keys only while
  \<^verbatim>\<open>inline_editing\<close> is set. A key no branch handles goes to the base class, which
  changes nothing of this state.
\<close>

definition keyPressEvent :: "QKeyEvent \<Rightarrow> overlay \<Rightarrow> overlay" where
  "keyPressEvent ev s =
     (if key ev = Key_Escape then
        (if inline_editing s then
           (let s1 = (case editing_text_item s of
                        None \<Rightarrow> s
                      | Some r \<Rightarrow>
                          if r \<in> set (drawing_items s)
                          then s\<lparr>drawing_items := remove1 r (drawing_items s)\<rparr> else s)
            in finish_inline_text_editing s1)
         else cancel_selection s)
      else if key ev = Key_Return \<or> key ev = Key_Enter then
        (if inline_editing s then finish_inline_text_editing s
         else if \<not> isEmpty (selection_rect s) then confirm_selection s
         else s)
      else if inline_editing s then
        (if key ev = Key_A \<and> modifiers ev = ControlModifier then
           s\<lparr>text_selection_start := 0,
             text_selection_end := length (text_input_buffer s),
             cursor_position := length (text_input_buffer s)\<rparr>
         else if key ev = Key_C \<and> modifiers ev = ControlModifier then
           (if text_selection_start s \<noteq> text_selection_end s
            then s\<lparr>clipboard := slice (text_selection_start s) (text_selection_end s)
                                   (text_input_buffer s)\<rparr>
            else s)
         else if key ev = Key_V \<and> modifiers ev = ControlModifier then
           (if clipboard s \<noteq> [] then insert_text (clipboard s) s else s)
         else if key ev = Key_Backspace then
           (if text_selection_start s \<noteq> text_selection_end s then delete_selection s
            else if cursor_position s > 0 then
              s\<lparr>text_input_buffer :=
                   take (cursor_position s - 1) (text_input_buffer s)
                     @ drop (cursor_position s) (text_input_buffer s),
                 cursor_position := cursor_position s - 1,
                 text_selection_start := cursor_position s - 1,
                 text_selection_end := cursor_position s - 1\<rparr>
            else s)
         else if key ev = Key_Delete then
           (if text_selection_start s \<noteq> text_selection_end s then delete_selection s
            else if cursor_position s < length (text_input_buffer s) then
              s\<lparr>text_input_buffer :=
                   take (cursor_position s) (text_input_buffer s)
                     @ drop (cursor_position s + 1) (text_input_buffer s),
                 text_selection_start := cursor_position s,
                 text_selection_end := cursor_position s\<rparr>
            else s)
         else if key ev = Key_Left then
           (if modifiers ev = ShiftModifier then
              (if cursor_position s > 0
               then s\<lparr>cursor_position := cursor_position s - 1,
                      text_selection_end := cursor_position s - 1\<rparr>
               else s)
            else
              (let c = (if text_selection_start s \<noteq> text_selection_end s
                        then min (text_selection_start s) (text_selection_end s)
                        else if cursor_position s > 0 then cursor_position s - 1
                        else cursor_position s)
               in s\<lparr>cursor_position := c, text_selection_start := c,
                     text_selection_end := c\<rparr>))
         else if key ev = Key_Right then
           (if modifiers ev = ShiftModifier then
              (if cursor_position s < length (text_input_buffer s)
               then s\<lparr>cursor_position := cursor_position s + 1,
                      text_selection_end := cursor_position s + 1\<rparr>
               else s)
            else
              (let c = (if text_selection_start s \<noteq> text_selection_end s
                        then max (text_selection_start s) (text_selection_end s)
                        else if cursor_position s < length (text_input_buffer s)
                        then cursor_position s + 1
                        else cursor_position s)
               in s\<lparr>cursor_position := c, text_selection_start := c,
                     text_selection_end := c\<rparr>))
         else if key ev = Key_Up then
           (case editing_text_item s of None \<Rightarrow> s | Some r \<Rightarrow> upd_item r font_step_up s)
         else if key ev = Key_Down then
           (case editing_text_item s of None \<Rightarrow> s | Some r \<Rightarrow> upd_item r font_step_down s)
         else if ev_text ev \<noteq> [] \<and> isprintable (ev_text ev) then insert_text (ev_text ev) s
         else s)
      else s)"

text \<open>
  \<^verbatim>\<open>inputMethodEvent\<close>: the string the input method commits is spliced into the
  buffer, then the pre-edit text of the event becomes the overlay's.
\<close>

record QInputMethodEvent =
  commitString :: string
  preeditString :: string

definition inputMethodEvent :: "QInputMethodEvent \<Rightarrow> overlay \<Rightarrow> overlay" where
  "inputMethodEvent ev s =
     (if inline_editing s then
        (let commit_string = commitString ev;
             s1 =
               (if commit_string \<noteq> [] then
                  (let s2 =
                     (if text_selection_start s \<noteq> text_selection_end s then
                        (let start = min (text_selection_start s) (text_selection_end s);
                             end_sel = max (text_selection_start s) (text_selection_end s)
                         in s\<lparr>text_input_buffer :=
                                 take start (text_input_buffer s) @ commit_string
                                   @ drop end_sel (text_input_buffer s),
                               cursor_position := start + length commit_string,
                               text_selection_start := start + length commit_string,
                               text_selection_end := start + length commit_string\<rparr>)
                      else
                        s\<lparr>text_input_buffer :=
                             take (cursor_position s) (text_input_buffer s) @ commit_string
                               @ drop (cursor_position s) (text_input_buffer s),
                           cursor_position := cursor_position s + length commit_string\<rparr>)
                   in s2\<lparr>preedit_text := [], preedit_cursor_pos := 0\<rparr>)
                else s)
         in s1\<lparr>preedit_text := preeditString ev,
               preedit_cursor_pos := length (preeditString ev)\<rparr>)
      else s)"

text \<open>The toolbar's callbacks \<^verbatim>\<open>_set_drawing_tool\<close> and \<^verbatim>\<open>_set_brush_size\<close>. The
  font metrics that resize the box of the edited item for a preset size are the
  toolkit's; \<open>bounds\<close> gives the width and height it measures for a size and a text.\<close>

definition set_drawing_tool :: "tool \<Rightarrow> overlay \<Rightarrow> overlay" where
  "set_drawing_tool t s =
     s\<lparr>current_tool := t, drawing_mode := (t \<noteq> select), text_input_mode := (t = text_tool)\<rparr>"

definition auto_adjust_text_box_for_font_size ::
    "(int \<Rightarrow> string \<Rightarrow> int \<times> int) \<Rightarrow> QRect \<Rightarrow> int \<Rightarrow> DrawingItem \<Rightarrow> DrawingItem" where
  "auto_adjust_text_box_for_font_size bounds scr font_size it =
     (if text_content it = [] then it
      else
        (let (bw, bh) = bounds font_size (text_content it);
             required_width = bw + 40;
             required_height = bh + 40;
             current_rect = item_rect it;
             new_width = max required_width MIN_SELECTION_SIZE;
             new_height = max required_height MIN_SELECTION_SIZE;
             new_rect = rectPS (topLeft current_rect) \<lparr>sw = new_width, sh = new_height\<rparr>;
             new_rect = constrain_to_screen scr new_rect;
             ps = (points it)[0 := topLeft new_rect]
         in it\<lparr>points := ps[length ps - 1 := bottomRight new_rect]\<rparr>))"

definition set_brush_size ::
    "(int \<Rightarrow> string \<Rightarrow> int \<times> int) \<Rightarrow> int \<Rightarrow> bool \<Rightarrow> overlay \<Rightarrow> overlay" where
  "set_brush_size bounds sz is_custom s =
     (let s1 = s\<lparr>drawing_width := sz\<rparr>
      in case editing_text_item s1 of
           None \<Rightarrow> s1
         | Some r \<Rightarrow>
             if inline_editing s1 then
               (if is_custom then
                  upd_item r (\<lambda>it. it\<lparr>text_size_mode := custom_mode, custom_font_size := sz\<rparr>) s1
                else
                  (let s2 = upd_item r (\<lambda>it. it\<lparr>pen_width := sz\<rparr>) s1
                   in if \<not> was_manually_resized (objs s2 ! r)
                      then upd_item r
                             (auto_adjust_text_box_for_font_size bounds (screen_rect s2) sz) s2
                      else s2))
             else s1)"


section \<open>Pointer events\<close>

text \<open>
  A pointer event carries the button, the position and, for a press, the clock the
  handler reads (\<^verbatim>\<open>time.time()\<close>, in milliseconds). A handler that returns early is
  modelled by \<open>Return\<close>; \<open>Continue\<close> goes on with the next statement of the source.
\<close>

datatype mouse_button = LeftButton | OtherButton

record QMouseEvent =
  ev_button :: mouse_button
  ev_pos :: QPoint
  ev_time :: int

datatype 'a flow = Return 'a | Continue 'a

definition HANDLE_SIZE :: int where "HANDLE_SIZE = 10"
definition HANDLE_MARGIN :: int where "HANDLE_MARGIN = 5"
definition double_click_threshold :: int where "double_click_threshold = 300"
definition text_tool_drag_threshold :: int where "text_tool_drag_threshold = 5"

text \<open>\<^verbatim>\<open>_get_resize_handles\<close>: the dictionary in its insertion order, which is the
  order the handlers iterate it in.\<close>

definition get_resize_handles :: "overlay \<Rightarrow> (handle \<times> QRect) list" where
  "get_resize_handles s =
     (if isEmpty (selection_rect s) then []
      else
        (let margin = HANDLE_MARGIN; size = HANDLE_SIZE; rect = selection_rect s
         in [(top_left, mkRect (left rect - margin) (top_r rect - margin) size size),
             (top_right, mkRect (right rect - size + margin) (top_r rect - margin) size size),
             (bottom_left, mkRect (left rect - margin) (bottom rect - size + margin) size size),
             (bottom_right,
                mkRect (right rect - size + margin) (bottom rect - size + margin) size size),
             (h_top, mkRect (px (center rect) - size div 2) (top_r rect - margin) size size),
             (h_bottom,
                mkRect (px (center rect) - size div 2) (bottom rect - size + margin) size size),
             (h_left, mkRect (left rect - margin) (py (center rect) - size div 2) size size),
             (h_right,
                mkRect (right rect - size + margin) (py (center rect) - size div 2) size size)]))"

definition handle_at :: "QPoint \<Rightarrow> overlay \<Rightarrow> handle option" where
  "handle_at pos s =
     map_option fst (find (\<lambda>(h, r). contains r pos) (get_resize_handles s))"

text \<open>The test both the double-click search and the click search of the release make
  on an item: a text item with two points and a non-empty content whose box holds the
  position.\<close>

definition editable_text_at :: "QPoint \<Rightarrow> overlay \<Rightarrow> nat \<Rightarrow> bool" where
  "editable_text_at pos s r =
     (let it = objs s ! r
      in tool_type it = text_tool \<and> length (points it) \<ge> 2 \<and> text_content it \<noteq> []
         \<and> contains (item_rect it) pos)"

definition start_long_press :: "QPoint \<Rightarrow> timer_target \<Rightarrow> overlay \<Rightarrow> overlay" where
  "start_long_press pos tg s =
     s\<lparr>text_press_start_pos := pos, is_long_pressing := False,
       text_press_timer := Some \<lparr>isActive = True, target = tg\<rparr>\<rparr>"

definition start_text_resize :: "nat \<Rightarrow> text_handle \<Rightarrow> QPoint \<Rightarrow> overlay \<Rightarrow> overlay" where
  "start_text_resize r h pos s =
     upd_item r (\<lambda>it. it\<lparr>was_manually_resized := True\<rparr>)
       (s\<lparr>active_text_item := Some r, text_resizing := True,
          text_resize_handle := Some h, text_drag_start := pos\<rparr>)"

text \<open>The loop of \<^verbatim>\<open>mousePressEvent\<close> over \<^verbatim>\<open>reversed(self.drawing_items)\<close>: for each
  text item, its four corner handles, then its enlarged body; \<open>None\<close> when the loop
  ends without a return.\<close>

fun press_text_items :: "QPoint \<Rightarrow> nat list \<Rightarrow> overlay \<Rightarrow> overlay option" where
  "press_text_items pos [] s = None"
| "press_text_items pos (r # rs) s =
     (let it = objs s ! r
      in if tool_type it = text_tool \<and> length (points it) \<ge> 2 then
           (let rr = item_rect it; hs = 12;
                tl_rect = mkRect (left rr - hs) (top_r rr - hs) (hs * 2) (hs * 2);
                tr_rect = mkRect (right rr - hs) (top_r rr - hs) (hs * 2) (hs * 2);
                bl_rect = mkRect (left rr - hs) (bottom rr - hs) (hs * 2) (hs * 2);
                br_rect = mkRect (right rr - hs) (bottom rr - hs) (hs * 2) (hs * 2);
                expanded_text_area = adjusted (- 8) (- 8) 8 8 rr
            in if contains tl_rect pos then Some (start_text_resize r h_tl pos s)
               else if contains tr_rect pos then Some (start_text_resize r h_tr pos s)
               else if contains bl_rect pos then Some (start_text_resize r h_bl pos s)
               else if contains br_rect pos then Some (start_text_resize r h_br pos s)
               else if contains expanded_text_area pos
               then Some (start_long_press pos (item_target r) s)
               else press_text_items pos rs s)
         else press_text_items pos rs s)"

definition press_editing :: "QMouseEvent \<Rightarrow> overlay \<Rightarrow> overlay flow" where
  "press_editing ev s =
     (case editing_text_item s of
        None \<Rightarrow> Continue s
      | Some r \<Rightarrow>
          if inline_editing s \<and> length (points (objs s ! r)) \<ge> 2 then
            (if contains (item_rect (objs s ! r)) (ev_pos ev)
             then Return (start_long_press (ev_pos ev) editing_target s)
             else Continue (finish_inline_text_editing s))
          else Continue s)"

definition press_double_click :: "QMouseEvent \<Rightarrow> overlay \<Rightarrow> overlay flow" where
  "press_double_click ev s =
     (if ev_time ev - last_click_time s < double_click_threshold
         \<and> manhattanLength (psub (ev_pos ev) (last_click_pos s)) < 10
      then (case find (editable_text_at (ev_pos ev) s) (drawing_items s) of
              Some r \<Rightarrow> Return (start_inline_text_editing r s)
            | None \<Rightarrow> Continue s)
      else Continue s)"

definition clicked_on_text :: "QPoint \<Rightarrow> overlay \<Rightarrow> bool" where
  "clicked_on_text pos s =
     (contains (selection_rect s) pos \<and>
      list_ex (\<lambda>r. let it = objs s ! r
                   in tool_type it = text_tool \<and> length (points it) \<ge> 2
                      \<and> contains (adjusted (- 12) (- 12) 12 12 (item_rect it)) pos)
        (drawing_items s))"

definition press_drawing :: "QMouseEvent \<Rightarrow> overlay \<Rightarrow> overlay flow" where
  "press_drawing ev s =
     (if drawing_mode s \<and> \<not> isEmpty (selection_rect s) then
        (let pos = ev_pos ev; on_text = clicked_on_text pos s
         in if \<not> on_text \<and> current_tool s = text_tool \<and> contains (selection_rect s) pos
            then Return (s\<lparr>text_tool_start_pos := pos, text_tool_is_dragging := False\<rparr>)
            else if \<not> on_text \<and> current_tool s \<noteq> text_tool
                    \<and> contains (selection_rect s) pos
            then (let it = DrawingItem_init (current_tool s) (drawing_color s) (drawing_width s);
                      (r, s1) = new_item (add_point pos it) s
                  in Return (s1\<lparr>current_drawing_item := Some r,
                                 drawing_start_point := Some pos\<rparr>))
            else Continue s)
      else Continue s)"

definition press_selection :: "QMouseEvent \<Rightarrow> overlay \<Rightarrow> overlay flow" where
  "press_selection ev s =
     (if \<not> isEmpty (selection_rect s) then
        (case handle_at (ev_pos ev) s of
           Some h \<Rightarrow> Return (s\<lparr>resizing := True, resize_handle := Some h\<rparr>)
         | None \<Rightarrow>
             (case (if contains (selection_rect s) (ev_pos ev)
                    then press_text_items (ev_pos ev) (rev (drawing_items s)) s else None) of
                Some s' \<Rightarrow> Return s'
              | None \<Rightarrow>
                  if contains (selection_rect s) (ev_pos ev)
                  then Return (s\<lparr>dragging := True,
                                 drag_offset := psub (ev_pos ev) (topLeft (selection_rect s))\<rparr>)
                  else Continue s))
      else Continue s)"

definition press_new_selection :: "QMouseEvent \<Rightarrow> overlay \<Rightarrow> overlay" where
  "press_new_selection ev s =
     s\<lparr>start_point := ev_pos ev, end_point := ev_pos ev, selecting := True,
       selection_rect := normalized (rectPP (ev_pos ev) (ev_pos ev))\<rparr>"

definition mousePressEvent :: "QMouseEvent \<Rightarrow> overlay \<Rightarrow> overlay" where
  "mousePressEvent ev s =
     (if ev_button ev = LeftButton then
        (case press_editing ev s of
           Return s' \<Rightarrow> s'
         | Continue s1 \<Rightarrow>
             (case press_double_click ev s1 of
                Return s' \<Rightarrow> s'
              | Continue s2 \<Rightarrow>
                  (let s3 = s2\<lparr>last_click_time := ev_time ev, last_click_pos := ev_pos ev\<rparr>
                   in case press_drawing ev s3 of
                        Return s' \<Rightarrow> s'
                      | Continue s4 \<Rightarrow>
                          (case press_selection ev s4 of
                             Return s' \<Rightarrow> s'
                           | Continue s5 \<Rightarrow> press_new_selection ev s5))))
      else s)"

text \<open>The long-press timer fires: \<^verbatim>\<open>_on_long_press_detected\<close> with the item of the
  callback. A single-shot timer is no longer active once it has fired.\<close>

definition on_long_press_detected :: "nat option \<Rightarrow> overlay \<Rightarrow> overlay" where
  "on_long_press_detected text_item s =
     s\<lparr>is_long_pressing := True, active_text_item := text_item, text_dragging := True,
       text_drag_start := text_press_start_pos s\<rparr>"

definition timer_timeout :: "overlay \<Rightarrow> overlay" where
  "timer_timeout s =
     (case text_press_timer s of
        None \<Rightarrow> s
      | Some t \<Rightarrow>
          if isActive t then
            on_long_press_detected
              (case target t of editing_target \<Rightarrow> editing_text_item s | item_target r \<Rightarrow> Some r)
              (s\<lparr>text_press_timer := Some (t\<lparr>isActive := False\<rparr>)\<rparr>)
          else s)"


text \<open>\<^verbatim>\<open>_update_selection_rect\<close> and \<^verbatim>\<open>_resize_selection\<close>.\<close>

definition update_selection_rect :: "overlay \<Rightarrow> overlay" where
  "update_selection_rect s =
     s\<lparr>selection_rect :=
         constrain_to_screen (screen_rect s) (normalized (rectPP (start_point s) (end_point s)))\<rparr>"

definition resize_selection :: "QPoint \<Rightarrow> overlay \<Rightarrow> overlay" where
  "resize_selection pos s =
     (case resize_handle s of
        None \<Rightarrow> s
      | Some h \<Rightarrow> s\<lparr>selection_rect := resize_rect (screen_rect s) h (selection_rect s) pos\<rparr>)"

text \<open>\<^verbatim>\<open>_update_hover_state\<close>, as far as the state goes (the rest of it chooses the
  cursor's shape): over a text item nothing changes; otherwise the handle under the
  pointer is recorded.\<close>

definition over_text_item :: "QPoint \<Rightarrow> overlay \<Rightarrow> bool" where
  "over_text_item pos s =
     list_ex (\<lambda>r. let it = objs s ! r
                  in tool_type it = text_tool \<and> length (points it) \<ge> 2 \<and>
                     (let rr = item_rect it; hs = 12
                      in contains (mkRect (left rr - hs) (top_r rr - hs) (hs * 2) (hs * 2)) pos
                         \<or> contains (mkRect (right rr - hs) (bottom rr - hs) (hs * 2) (hs * 2)) pos
                         \<or> contains (mkRect (right rr - hs) (top_r rr - hs) (hs * 2) (hs * 2)) pos
                         \<or> contains (mkRect (left rr - hs) (bottom rr - hs) (hs * 2) (hs * 2)) pos
                         \<or> contains (adjusted (- 8) (- 8) 8 8 rr) pos))
       (rev (drawing_items s))"

definition update_hover_state :: "QPoint \<Rightarrow> overlay \<Rightarrow> overlay" where
  "update_hover_state pos s =
     (if isEmpty (selection_rect s) then s
      else if over_text_item pos s then s
      else s\<lparr>hover_handle := handle_at pos s\<rparr>)"

text \<open>The two statements that store a rectangle back into an item:
  \<^verbatim>\<open>points[0] = rect.topLeft(); points[-1] = rect.bottomRight()\<close>.\<close>

definition set_item_rect :: "QRect \<Rightarrow> DrawingItem \<Rightarrow> DrawingItem" where
  "set_item_rect r it =
     (let ps = (points it)[0 := topLeft r]
      in it\<lparr>points := ps[length ps - 1 := bottomRight r]\<rparr>)"

text \<open>The rectangle a pointer move gives a text box that is being resized by one of
  its handles.\<close>

definition text_resize_rect :: "QRect \<Rightarrow> text_handle option \<Rightarrow> QRect \<Rightarrow> QPoint \<Rightarrow> QRect" where
  "text_resize_rect scr h r current_pos =
     (let n0 = (case h of
                  Some h_tl \<Rightarrow> setTopLeft current_pos r
                | Some h_tr \<Rightarrow> setTopRight current_pos r
                | Some h_bl \<Rightarrow> setBottomLeft current_pos r
                | Some h_br \<Rightarrow> setBottomRight current_pos r
                | Some h_tm \<Rightarrow> setTop (py current_pos) r
                | Some h_bm \<Rightarrow> setBottom (py current_pos) r
                | Some h_lm \<Rightarrow> setLeft (px current_pos) r
                | Some h_rm \<Rightarrow> setRight (px current_pos) r
                | None \<Rightarrow> r);
          n1 = (if width n0 < MIN_SELECTION_SIZE then
                  (if h \<in> {Some h_tl, Some h_bl, Some h_lm}
                   then setLeft (right n0 - MIN_SELECTION_SIZE) n0
                   else setRight (left n0 + MIN_SELECTION_SIZE) n0)
                else n0);
          n2 = (if height n1 < MIN_SELECTION_SIZE then
                  (if h \<in> {Some h_tl, Some h_tr, Some h_tm}
                   then setTop (bottom n1 - MIN_SELECTION_SIZE) n1
                   else setBottom (top_r n1 + MIN_SELECTION_SIZE) n1)
                else n1)
      in constrain_to_screen scr (normalized n2))"

definition move_cancel_long_press :: "QMouseEvent \<Rightarrow> overlay \<Rightarrow> overlay" where
  "move_cancel_long_press ev s =
     (case text_press_timer s of
        None \<Rightarrow> s
      | Some t \<Rightarrow>
          if isActive t \<and> \<not> isNull (text_press_start_pos s)
             \<and> manhattanLength (psub (ev_pos ev) (text_press_start_pos s)) > 10
          then s\<lparr>text_press_timer := None\<rparr> else s)"

definition move_text_tool_drag :: "QMouseEvent \<Rightarrow> overlay \<Rightarrow> overlay" where
  "move_text_tool_drag ev s =
     (if drawing_mode s \<and> current_tool s = text_tool \<and> \<not> isNull (text_tool_start_pos s)
         \<and> \<not> text_tool_is_dragging s
         \<and> manhattanLength (psub (ev_pos ev) (text_tool_start_pos s)) > text_tool_drag_threshold
      then (let it = DrawingItem_init (current_tool s) (drawing_color s) (drawing_width s);
                (r, s1) = new_item (add_point (text_tool_start_pos s) it) s
            in s1\<lparr>text_tool_is_dragging := True, current_drawing_item := Some r,
                  drawing_start_point := Some (text_tool_start_pos s)\<rparr>)
      else s)"

definition move_text_dragging :: "nat \<Rightarrow> QMouseEvent \<Rightarrow> overlay \<Rightarrow> overlay" where
  "move_text_dragging a ev s =
     (let r = item_rect (objs s ! a);
          delta = psub (ev_pos ev) (text_drag_start s);
          new_rect = rectPS (padd (topLeft r) delta) (rsize r);
          new_rect = constrain_to_screen (screen_rect s) new_rect
      in (upd_item a (set_item_rect new_rect) s)\<lparr>text_drag_start := ev_pos ev\<rparr>)"

definition move_text_resizing :: "nat \<Rightarrow> QMouseEvent \<Rightarrow> overlay \<Rightarrow> overlay" where
  "move_text_resizing a ev s =
     upd_item a
       (set_item_rect
          (text_resize_rect (screen_rect s) (text_resize_handle s) (item_rect (objs s ! a))
             (ev_pos ev))) s"

definition move_selection_dragging :: "QMouseEvent \<Rightarrow> overlay \<Rightarrow> overlay" where
  "move_selection_dragging ev s =
     (let new_top_left = psub (ev_pos ev) (drag_offset s);
          new_rect = rectPS new_top_left (rsize (selection_rect s))
      in s\<lparr>selection_rect := constrain_to_screen (screen_rect s) new_rect\<rparr>)"

text \<open>The guards \<^verbatim>\<open>self.drawing_mode and self.current_drawing_item\<close> and
  \<^verbatim>\<open>flag and self.active_text_item and len(self.active_text_item.points) >= 2\<close>: the
  item when the guard holds.\<close>

definition drawing_in_progress :: "overlay \<Rightarrow> nat option" where
  "drawing_in_progress s = (if drawing_mode s then current_drawing_item s else None)"

definition active_text_box :: "bool \<Rightarrow> overlay \<Rightarrow> nat option" where
  "active_text_box flag s =
     (case active_text_item s of
        None \<Rightarrow> None
      | Some a \<Rightarrow> if flag \<and> length (points (objs s ! a)) \<ge> 2 then Some a else None)"

text \<open>\<^verbatim>\<open>mouseMoveEvent\<close>: the long-press check and the text tool's drag detection,
  then the first branch whose guard holds (\<open>move_gesture\<close>).\<close>

definition move_gesture :: "QMouseEvent \<Rightarrow> overlay \<Rightarrow> overlay" where
  "move_gesture ev s =
     (case drawing_in_progress s of
        Some r \<Rightarrow> upd_item r (add_point (ev_pos ev)) s
      | None \<Rightarrow>
          (case active_text_box (text_dragging s) s of
             Some a \<Rightarrow> move_text_dragging a ev s
           | None \<Rightarrow>
               (case active_text_box (text_resizing s) s of
                  Some a \<Rightarrow> move_text_resizing a ev s
                | None \<Rightarrow>
                    if selecting s then update_selection_rect (s\<lparr>end_point := ev_pos ev\<rparr>)
                    else if resizing s \<and> resize_handle s \<noteq> None
                    then resize_selection (ev_pos ev) s
                    else if dragging s then move_selection_dragging ev s
                    else update_hover_state (ev_pos ev) s)))"

definition mouseMoveEvent :: "QMouseEvent \<Rightarrow> overlay \<Rightarrow> overlay" where
  "mouseMoveEvent ev s = move_gesture ev (move_text_tool_drag ev (move_cancel_long_press ev s))"

text \<open>\<^verbatim>\<open>mouseReleaseEvent\<close>.\<close>

definition release_click_edit :: "QMouseEvent \<Rightarrow> overlay \<Rightarrow> overlay" where
  "release_click_edit ev s =
     (if \<not> is_long_pressing s \<and> \<not> isNull (text_press_start_pos s)
         \<and> manhattanLength (psub (ev_pos ev) (text_press_start_pos s)) < 10
      then (case find (editable_text_at (ev_pos ev) s) (drawing_items s) of
              Some r \<Rightarrow> start_inline_text_editing r s
            | None \<Rightarrow> s)
      else s)"

definition release_drawing :: "nat \<Rightarrow> QMouseEvent \<Rightarrow> overlay \<Rightarrow> overlay" where
  "release_drawing r ev s =
     (let s1 = upd_item r (add_point (ev_pos ev)) s;
          s2 = (if current_tool s1 = text_tool
                then start_inline_text_editing r (upd_item r (\<lambda>it. it\<lparr>text_content := []\<rparr>) s1)
                else s1);
          s3 = commit_item r s2
      in s3\<lparr>current_drawing_item := None, text_tool_start_pos := nullPoint,
            text_tool_is_dragging := False\<rparr>)"

text \<open>The gesture the release ends, after the long-press state is reset: a text
  drag or resize, a drawing in progress (which is committed), a click of the text
  tool, a selection, resize or drag of the selection rectangle.\<close>

definition release_gesture :: "QMouseEvent \<Rightarrow> overlay \<Rightarrow> overlay" where
  "release_gesture ev s =
     (if text_dragging s \<or> text_resizing s then
        s\<lparr>text_dragging := False, text_resizing := False, active_text_item := None,
          text_resize_handle := None\<rparr>
      else
        (case drawing_in_progress s of
           Some r \<Rightarrow> release_drawing r ev s
         | None \<Rightarrow>
             if current_tool s = text_tool \<and> \<not> isNull (text_tool_start_pos s)
                \<and> \<not> text_tool_is_dragging s then
               (handle_text_input (text_tool_start_pos s) s)
                 \<lparr>text_tool_start_pos := nullPoint, text_tool_is_dragging := False\<rparr>
             else if selecting s then
               update_selection_rect (s\<lparr>selecting := False, end_point := ev_pos ev\<rparr>)
             else if resizing s then s\<lparr>resizing := False, resize_handle := None\<rparr>
             else if dragging s then s\<lparr>dragging := False\<rparr>
             else s))"

definition mouseReleaseEvent :: "QMouseEvent \<Rightarrow> overlay \<Rightarrow> overlay" where
  "mouseReleaseEvent ev s =
     (if ev_button ev = LeftButton then
        release_gesture ev
          ((release_click_edit ev (s\<lparr>text_press_timer := None\<rparr>))
             \<lparr>is_long_pressing := False, text_press_start_pos := nullPoint\<rparr>)
      else s)"

section \<open>The states the overlay can reach\<close>

text \<open>The overlay starts in the state of \<^verbatim>\<open>__init__\<close>; every event the toolkit
  delivers and every toolbar callback takes a reachable state to a reachable state.\<close>

inductive reachable :: "overlay \<Rightarrow> bool" where
  r_init: "reachable (overlay_init scr)"
| r_press: "reachable s \<Longrightarrow> reachable (mousePressEvent ev s)"
| r_move: "reachable s \<Longrightarrow> reachable (mouseMoveEvent ev s)"
| r_release: "reachable s \<Longrightarrow> reachable (mouseReleaseEvent ev s)"
| r_key: "reachable s \<Longrightarrow> reachable (keyPressEvent kev s)"
| r_ime: "reachable s \<Longrightarrow> reachable (inputMethodEvent iev s)"
| r_timer: "reachable s \<Longrightarrow> reachable (timer_timeout s)"
| r_undo: "reachable s \<Longrightarrow> reachable (undo_drawing s)"
| r_redo: "reachable s \<Longrightarrow> reachable (redo_drawing s)"
| r_tool: "reachable s \<Longrightarrow> reachable (set_drawing_tool t s)"
| r_size: "reachable s \<Longrightarrow> reachable (set_brush_size bounds sz is_custom s)"
| r_clip: "reachable s \<Longrightarrow> reachable (s\<lparr>clipboard := txt\<rparr>)"


section \<open>Rendering\<close>

text \<open>
  \<^verbatim>\<open>DrawingItem.draw(painter)\<close> is modelled by the painter calls it makes, in order.
  What the toolkit and the mathematics library compute is a parameter: the lightness
  of a colour, the font metrics of the bold interface font at a size (the bounding
  box of a text, the average character width, the line height) and the two end points
  of an arrowhead (the source computes them from the line's angle in floating point).

  The paint device is the overlay widget in \<^verbatim>\<open>paintEvent\<close> and a copy of the
  screenshot in \<^verbatim>\<open>_create_composite_image\<close>; only the widget has the attributes
  \<^verbatim>\<open>inline_editing\<close>, \<^verbatim>\<open>editing_text_item\<close>, \<^verbatim>\<open>text_input_buffer\<close> and so on that
  \<^verbatim>\<open>draw\<close> looks for on the device. The device is \<open>Some s\<close> for the widget in state
  \<open>s\<close> and \<open>None\<close> for the pixmap.
\<close>

record toolkit =
  lightness :: "QColor \<Rightarrow> int"
  boundingRect :: "int \<Rightarrow> string \<Rightarrow> int \<times> int"
  averageCharWidth :: "int \<Rightarrow> int"
  fontHeight :: "int \<Rightarrow> int"
  arrowheads :: "QPoint \<Rightarrow> QPoint \<Rightarrow> QPoint \<times> QPoint"

datatype pen_style = SolidLine | DashLine

datatype paint_cmd =
    SetPen QColor int pen_style
  | SetBrushTransparent
  | SetNoBrush
  | DrawLine QPoint QPoint
  | DrawRect QRect
  | DrawEllipse QRect
  | Save
  | Restore
  | SetFont int
  | FillRect QRect QColor
  | DrawText QRect string

text \<open>\<^verbatim>\<open>_auto_expand_text_box(text_item, font, text)\<close>, which \<^verbatim>\<open>draw\<close> calls for the
  item being edited. It writes the second point of the item, \<^verbatim>\<open>points[1]\<close>.\<close>

definition auto_expand_text_box ::
    "toolkit \<Rightarrow> QRect \<Rightarrow> int \<Rightarrow> string \<Rightarrow> DrawingItem \<Rightarrow> DrawingItem" where
  "auto_expand_text_box tk scr font_size txt it =
     (if txt = [] \<or> length (points it) < 2 then it
      else
        (let (bw, bh) = boundingRect tk font_size txt;
             required_width = bw + 20;
             required_height = bh + 20;
             current_rect = item_rect it;
             n1 = (if required_width > width current_rect
                   then setWidth required_width current_rect else current_rect);
             n2 = (if required_height > height current_rect
                   then setHeight required_height n1 else n1)
         in if required_width > width current_rect \<or> required_height > height current_rect
            then (let constrained_rect = constrain_to_screen scr n2
                  in it\<lparr>points := (points it)[1 := bottomRight n2,
                                                0 := topLeft constrained_rect,
                                                1 := bottomRight constrained_rect]\<rparr>)
            else it))"

text \<open>The font size of a text item whose box has height \<open>h\<close>. The source computes
  \<^verbatim>\<open>int(h * 0.5)\<close> and \<^verbatim>\<open>int(h * 0.4)\<close> on \<open>h \<ge> 20\<close>, which are \<open>h div 2\<close> and
  \<open>2 * h div 5\<close>.\<close>

definition text_font_size :: "DrawingItem \<Rightarrow> int \<Rightarrow> int" where
  "text_font_size it h =
     (if text_size_mode it = custom_mode then custom_font_size it
      else if was_manually_resized it then max 8 (h div 2)
      else max 10 (min 36 (2 * h div 5)))"

text \<open>The text a box shows while it is edited: the buffer with the cursor mark, or
  with the pre-edit text and the cursor mark inside it.\<close>

definition editing_display_text :: "overlay \<Rightarrow> string" where
  "editing_display_text d =
     (let display_text = text_input_buffer d;
          cursor_pos = cursor_position d;
          display_text = (if cursor_pos \<le> length display_text
                          then take cursor_pos display_text @ ''|'' @ drop cursor_pos display_text
                          else display_text)
      in if preedit_text d \<noteq> [] \<and> int cursor_pos \<le> int (length display_text) - 1 then
           (let base_text = text_input_buffer d;
                display_text = take cursor_pos base_text @ preedit_text d
                                 @ drop cursor_pos base_text;
                cursor_in_preedit = cursor_pos + preedit_cursor_pos d
            in take cursor_in_preedit display_text @ ''|''
                 @ drop cursor_in_preedit display_text)
         else display_text)"

text \<open>The text branch of \<^verbatim>\<open>draw\<close>: the dashed box and the four corner handles of a
  box with two points, then the text.\<close>

definition draw_text_box :: "DrawingItem \<Rightarrow> paint_cmd list" where
  "draw_text_box it =
     (if length (points it) \<ge> 2 then
        (let rect = item_rect it; hs = 6; handle_color = (103, 80, 164, 255)
         in [SetPen (color it) 1 DashLine, SetNoBrush, DrawRect rect,
             SetNoBrush, SetPen handle_color 1 SolidLine,
             DrawEllipse (mkRect (left rect - hs div 2) (top_r rect - hs div 2) hs hs),
             DrawEllipse (mkRect (right rect - hs div 2) (top_r rect - hs div 2) hs hs),
             DrawEllipse (mkRect (left rect - hs div 2) (bottom rect - hs div 2) hs hs),
             DrawEllipse (mkRect (right rect - hs div 2) (bottom rect - hs div 2) hs hs)])
      else [])"

definition draw_text_content ::
    "toolkit \<Rightarrow> overlay option \<Rightarrow> nat \<Rightarrow> DrawingItem \<Rightarrow> paint_cmd list \<times> DrawingItem" where
  "draw_text_content tk dev self it =
     (if text_content it \<noteq> [] \<or> dev \<noteq> None then
        (let rect = (if length (points it) \<ge> 2 then item_rect it
                     else adjusted 0 0 (max 40 (pen_width it * 8)) (max 24 (pen_width it * 6))
                            (rectPP (points it ! 0) (points it ! 0)));
             h = max 20 (height rect);
             font_size = text_font_size it h;
             text_color = (if lightness tk (color it) > 240 then (0, 0, 0, 255)
                           else if lightness tk (color it) < 40 then (255, 255, 255, 255)
                           else color it);
             text_rect = adjusted 6 6 (- 6) (- 6) rect;
             head = [Save, SetFont font_size, SetPen text_color 1 SolidLine]
         in case dev of
              None \<Rightarrow>
                (head @ [SetPen text_color 1 SolidLine, DrawText text_rect (text_content it),
                         Restore], it)
            | Some d \<Rightarrow>
                if inline_editing d \<and> editing_text_item d = Some self then
                  (let it' = auto_expand_text_box tk (screen_rect d) font_size
                               (text_input_buffer d) it;
                       text_rect = adjusted 6 6 (- 6) (- 6) (item_rect it');
                       highlight =
                         (if text_selection_start d \<noteq> text_selection_end d then
                            (let start_sel = min (text_selection_start d) (text_selection_end d);
                                 end_sel = max (text_selection_start d) (text_selection_end d);
                                 char_width = averageCharWidth tk font_size;
                                 char_height = fontHeight tk font_size;
                                 sel_start_x = left text_rect + int start_sel * char_width;
                                 sel_width = (int end_sel - int start_sel) * char_width
                             in [FillRect (mkRect sel_start_x (top_r text_rect) sel_width char_height)
                                   (0, 120, 215, 100)])
                          else [])
                   in (head @ highlight
                         @ [SetPen text_color 1 SolidLine,
                            DrawText text_rect (editing_display_text d), Restore], it'))
                else
                  (head @ [SetPen text_color 1 SolidLine, DrawText text_rect (text_content it),
                           Restore], it))
      else ([], it))"

definition draw ::
    "toolkit \<Rightarrow> overlay option \<Rightarrow> nat \<Rightarrow> DrawingItem \<Rightarrow> paint_cmd list \<times> DrawingItem" where
  "draw tk dev self it =
     (let pre = [SetPen (color it) (pen_width it) SolidLine, SetBrushTransparent]
      in if tool_type it = pen \<and> length (points it) > 1 then
           (pre @ map (\<lambda>(a, b). DrawLine a b) (zip (points it) (tl (points it))), it)
         else if tool_type it = rectangle \<and> length (points it) \<ge> 2 then
           (pre @ [DrawRect (item_rect it)], it)
         else if tool_type it = circle \<and> length (points it) \<ge> 2 then
           (pre @ [DrawEllipse (item_rect it)], it)
         else if tool_type it = arrow \<and> length (points it) \<ge> 2 then
           (let start = points it ! 0; end_pt = last (points it);
                (arrowhead1, arrowhead2) = arrowheads tk start end_pt
            in (pre @ [DrawLine start end_pt, DrawLine end_pt arrowhead1,
                       DrawLine end_pt arrowhead2], it))
         else if tool_type it = text_tool \<and> length (points it) \<ge> 1 then
           (let (cmds, it') = draw_text_content tk dev self it
            in (pre @ draw_text_box it @ cmds, it'))
         else (pre, it))"


text \<open>\<^verbatim>\<open>_draw_drawing_items\<close>, the pass of \<^verbatim>\<open>paintEvent\<close> over the same items on the
  widget; an item that is being edited may be enlarged by its own drawing.\<close>

fun draw_drawing_items :: "toolkit \<Rightarrow> nat list \<Rightarrow> overlay \<Rightarrow> paint_cmd list \<times> overlay" where
  "draw_drawing_items tk [] s = ([], s)"
| "draw_drawing_items tk (r # rs) s =
     (let (cmds, it') = draw tk (Some s) r (objs s ! r);
          (rest, s') = draw_drawing_items tk rs (upd_item r (\<lambda>_. it') s)
      in (cmds @ rest, s'))"


section \<open>Invariants, gestures and sessions\<close>

text \<open>
  The history invariant: no list holds an item twice, an undone item is neither
  committed nor on the undo stack, every reference is to an existing object, and the
  item of a gesture in progress is in none of the lists yet.
\<close>

definition hist_ok :: "overlay \<Rightarrow> bool" where
  "hist_ok s =
     (distinct (drawing_items s) \<and> distinct (undo_stack s) \<and> distinct (redo_stack s)
      \<and> set (undo_stack s) \<inter> set (redo_stack s) = {}
      \<and> set (redo_stack s) \<inter> set (drawing_items s) = {}
      \<and> list_all (\<lambda>r. r < length (objs s)) (drawing_items s @ undo_stack s @ redo_stack s)
      \<and> (case current_drawing_item s of
            None \<Rightarrow> True
          | Some r \<Rightarrow> r < length (objs s)
                      \<and> r \<notin> set (drawing_items s @ undo_stack s @ redo_stack s)))"

text \<open>A rectangle lies within the screen: \<open>x \<ge> 0\<close>, \<open>y \<ge> 0\<close>, \<open>x + w \<le> screen_w\<close> and
  \<open>y + h \<le> screen_h\<close>.\<close>

definition fits_screen :: "QRect \<Rightarrow> QRect \<Rightarrow> bool" where
  "fits_screen scr r =
     (0 \<le> left r \<and> 0 \<le> top_r r \<and> left r + width r \<le> width scr
      \<and> top_r r + height r \<le> height scr)"

text \<open>The gesture in progress is a drag of the whole selection, or a drag of the body
  of the text item \<open>a\<close>: the flags the press handler (or the long-press timer) leaves
  set, with no drawing gesture pending.\<close>

definition selection_drag_in_progress :: "overlay \<Rightarrow> bool" where
  "selection_drag_in_progress s =
     (dragging s \<and> \<not> selecting s \<and> \<not> resizing s \<and> \<not> text_dragging s \<and> \<not> text_resizing s
      \<and> current_drawing_item s = None \<and> isNull (text_tool_start_pos s))"

definition text_drag_in_progress :: "nat \<Rightarrow> overlay \<Rightarrow> bool" where
  "text_drag_in_progress a s =
     (text_dragging s \<and> active_text_item s = Some a \<and> a < length (objs s)
      \<and> length (points (objs s ! a)) \<ge> 2
      \<and> current_drawing_item s = None \<and> isNull (text_tool_start_pos s))"





text \<open>A pointer gesture: the press, the moves, the release.\<close>

definition gesture :: "QMouseEvent \<Rightarrow> QMouseEvent list \<Rightarrow> QMouseEvent \<Rightarrow> overlay \<Rightarrow> overlay" where
  "gesture press moves release s =
     mouseReleaseEvent release (foldl (\<lambda>t m. mouseMoveEvent m t) (mousePressEvent press s) moves)"

text \<open>Events for the scenarios below: a left-button pointer event at a position and
  a time, a key with its text, and the Escape, Enter and paste keys.\<close>

definition mouse :: "int \<Rightarrow> int \<Rightarrow> int \<Rightarrow> QMouseEvent" where
  "mouse x y t = \<lparr>ev_button = LeftButton, ev_pos = mkPoint x y, ev_time = t\<rparr>"

definition typed :: "string \<Rightarrow> QKeyEvent" where
  "typed txt = \<lparr>key = Key_Other, modifiers = NoModifier, ev_text = txt\<rparr>"

definition pressed :: "key \<Rightarrow> modifier \<Rightarrow> QKeyEvent" where
  "pressed k m = \<lparr>key = k, modifiers = m, ev_text = []\<rparr>"

text \<open>
  Scenario states, each reached from the initial state on an 800 by 600 screen by the
  events written out:
  \<^item> \<open>demo_selected\<close>: the selection dragged from (100,100) to (300,250);
  \<^item> \<open>demo_text_new\<close>: then the text tool chosen and clicked at (105,105), which opens
    a session on a new, empty text item;
  \<^item> \<open>demo_text_hi\<close>: then \<open>Hi\<close> typed and Enter pressed;
  \<^item> \<open>demo_text_reedit\<close>: then the item clicked at (200,150), which opens a session
    on the committed item;
  \<^item> \<open>demo_arrow_pressed\<close>: from \<open>demo_selected\<close>, the arrow tool chosen and the
    pointer pressed at (150,150).
\<close>

definition demo_selected :: overlay where
  "demo_selected =
     gesture (mouse 100 100 1000) [mouse 300 250 1100] (mouse 300 250 1200)
       (overlay_init (mkRect 0 0 800 600))"

definition demo_text_new :: overlay where
  "demo_text_new =
     gesture (mouse 105 105 5000) [] (mouse 105 105 5050)
       (set_drawing_tool text_tool demo_selected)"

definition demo_text_hi :: overlay where
  "demo_text_hi =
     keyPressEvent (pressed Key_Return NoModifier)
       (keyPressEvent (typed ''i'') (keyPressEvent (typed ''H'') demo_text_new))"

definition demo_text_reedit :: overlay where
  "demo_text_reedit =
     gesture (mouse 200 150 9000) [] (mouse 200 150 9050) demo_text_hi"

definition demo_arrow_pressed :: overlay where
  "demo_arrow_pressed =
     mousePressEvent (mouse 150 150 5000) (set_drawing_tool arrow demo_selected)"


definition demo_text_typed :: overlay where
  "demo_text_typed = keyPressEvent (typed ''!'') demo_text_reedit"

text \<open>
  \<^item> \<open>demo_right_edge\<close>: from the initial state, the selection dragged from (700,100)
    to (799,199), the right edge of the screen;
  \<^item> \<open>demo_left_handle\<close>: then the pointer pressed on the left resize handle, at
    (700,150).
\<close>

definition demo_right_edge :: overlay where
  "demo_right_edge =
     gesture (mouse 700 100 1000) [mouse 799 199 1100] (mouse 799 199 1200)
       (overlay_init (mkRect 0 0 800 600))"

definition demo_left_handle :: overlay where
  "demo_left_handle = mousePressEvent (mouse 700 150 5000) demo_right_edge"


text \<open>The part of the state the history invariant is about.\<close>

definition hist :: "overlay \<Rightarrow> nat \<times> nat list \<times> nat list \<times> nat list \<times> nat option" where
  "hist s = (length (objs s), drawing_items s, undo_stack s, redo_stack s,
             current_drawing_item s)"






text \<open>The part of the state that says whether, and on which item, a text-editing
  session is open.\<close>

definition editing :: "overlay \<Rightarrow> bool \<times> nat option" where
  "editing s = (inline_editing s, editing_text_item s)"

text \<open>
  A shape is being drawn: in the state \<open>s\<close>, reached from \<open>s0\<close> by a press and some
  moves, the item \<open>r\<close> of the gesture has the points \<open>ps\<close>, the tool is the one of
  \<open>s0\<close> (not the text tool), no text box is being dragged or resized, and nothing has
  been committed since \<open>s0\<close>.
\<close>

definition drawing_shape :: "nat \<Rightarrow> QPoint list \<Rightarrow> overlay \<Rightarrow> overlay \<Rightarrow> bool" where
  "drawing_shape r ps s0 s =
     (drawing_mode s \<and> current_tool s = current_tool s0 \<and> current_tool s0 \<noteq> text_tool
      \<and> current_drawing_item s = Some r \<and> r < length (objs s)
      \<and> points (objs s ! r) = ps \<and> tool_type (objs s ! r) = current_tool s0
      \<and> \<not> text_dragging s \<and> \<not> text_resizing s
      \<and> drawing_items s = drawing_items s0 \<and> undo_stack s = undo_stack s0)"

text \<open>
  Further scenario states:
  \<^item> \<open>demo_text_tool\<close>: \<open>demo_selected\<close> with the text tool chosen;
  \<^item> \<open>demo_select_tool\<close>: \<open>demo_text_hi\<close> with the Select tool chosen again;
  \<^item> \<open>demo_sel_drag\<close>: from \<open>demo_selected\<close>, the pointer pressed inside the
    selection, at (200,150), which starts a drag of the selection;
  \<^item> \<open>demo_text_drag\<close>: from \<open>demo_select_tool\<close>, the pointer pressed on the text box
    at (200,150) and held until the long-press timer fires, which starts a drag of
    the box.
\<close>

definition demo_text_tool :: overlay where
  "demo_text_tool = set_drawing_tool text_tool demo_selected"

definition demo_select_tool :: overlay where
  "demo_select_tool = set_drawing_tool select demo_text_hi"

definition demo_sel_drag :: overlay where
  "demo_sel_drag = mousePressEvent (mouse 200 150 5000) demo_selected"

definition demo_text_drag :: overlay where
  "demo_text_drag = timer_timeout (mousePressEvent (mouse 200 150 12000) demo_select_tool)"

section \<open>Facts about the geometry\<close>

lemmas rect_defs = mkRect_def mkPoint_def left_def top_r_def right_def bottom_def width_def
  height_def moveLeft_def moveTop_def moveRight_def moveBottom_def setLeft_def setTop_def
  setRight_def setBottom_def setWidth_def setHeight_def normalized_def MIN_SELECTION_SIZE_def
  rectPS_def rectPP_def rsize_def topLeft_def bottomRight_def psub_def padd_def

text \<open>A rectangle of at least the minimum size that lies within the screen is left
  as it is; clamping never changes a width or height that is at least the minimum;
  and the clamped rectangle always has the minimum size.\<close>

lemma constrain_to_screen_fits:
  assumes "fits_screen scr r" "MIN_SELECTION_SIZE \<le> width r" "MIN_SELECTION_SIZE \<le> height r"
  shows "constrain_to_screen scr r = r"
  using assms by (simp add: constrain_to_screen_def fits_screen_def rect_defs Let_def)

lemma constrain_to_screen_size:
  assumes "MIN_SELECTION_SIZE \<le> width r" "MIN_SELECTION_SIZE \<le> height r"
  shows "width (constrain_to_screen scr r) = width r"
    and "height (constrain_to_screen scr r) = height r"
  using assms by (simp_all add: constrain_to_screen_def rect_defs Let_def)

lemma constrain_to_screen_min_size:
  "MIN_SELECTION_SIZE \<le> width (constrain_to_screen scr r)"
  "MIN_SELECTION_SIZE \<le> height (constrain_to_screen scr r)"
  by (simp_all add: constrain_to_screen_def rect_defs Let_def)

text \<open>The last two checks bound \<open>right()\<close> and \<open>bottom()\<close> by the screen's width and
  height, that is \<open>x + w \<le> screen_w + 1\<close> and \<open>y + h \<le> screen_h + 1\<close>.\<close>

lemma constrain_to_screen_right_bottom:
  "right (constrain_to_screen scr r) \<le> width scr"
  "bottom (constrain_to_screen scr r) \<le> height scr"
  by (simp_all add: constrain_to_screen_def rect_defs Let_def)

section \<open>The history invariant holds in every reachable state\<close>

text \<open>
  Most handlers leave the history part \<open>hist\<close> of the state alone; the lemmas
  \<open>hist_\<dots>\<close> say so, one handler at a time. The handlers that remove an item
  (\<^verbatim>\<open>_finish_inline_text_editing\<close>, Escape), create one (a press with a drawing tool,
  a drag with the text tool), commit one (the release, \<^verbatim>\<open>_handle_text_input\<close>) or
  move one between the stacks (undo, redo) keep the invariant \<open>hist_ok\<close>; so it holds
  in every reachable state.
\<close>

lemma hist_upd [simp]:
  "hist (screen_rect_update f1 s) = hist s"
  "hist (start_point_update f2 s) = hist s"
  "hist (end_point_update f3 s) = hist s"
  "hist (selecting_update f4 s) = hist s"
  "hist (selection_rect_update f5 s) = hist s"
  "hist (result_update f6 s) = hist s"
  "hist (closed_update f7 s) = hist s"
  "hist (dragging_update f8 s) = hist s"
  "hist (resizing_update f9 s) = hist s"
  "hist (resize_handle_update f10 s) = hist s"
  "hist (drag_offset_update f11 s) = hist s"
  "hist (hover_handle_update f12 s) = hist s"
  "hist (drawing_mode_update f13 s) = hist s"
  "hist (current_tool_update f14 s) = hist s"
  "hist (drawing_start_point_update f15 s) = hist s"
  "hist (drawing_color_update f16 s) = hist s"
  "hist (drawing_width_update f17 s) = hist s"
  "hist (text_input_mode_update f18 s) = hist s"
  "hist (active_text_item_update f19 s) = hist s"
  "hist (text_dragging_update f20 s) = hist s"
  "hist (text_resizing_update f21 s) = hist s"
  "hist (text_drag_start_update f22 s) = hist s"
  "hist (text_resize_handle_update f23 s) = hist s"
  "hist (inline_editing_update f24 s) = hist s"
  "hist (editing_text_item_update f25 s) = hist s"
  "hist (text_input_buffer_update f26 s) = hist s"
  "hist (cursor_position_update f27 s) = hist s"
  "hist (last_click_time_update f28 s) = hist s"
  "hist (last_click_pos_update f29 s) = hist s"
  "hist (preedit_text_update f30 s) = hist s"
  "hist (preedit_cursor_pos_update f31 s) = hist s"
  "hist (text_selection_start_update f32 s) = hist s"
  "hist (text_selection_end_update f33 s) = hist s"
  "hist (text_press_timer_update f34 s) = hist s"
  "hist (text_press_start_pos_update f35 s) = hist s"
  "hist (is_long_pressing_update f36 s) = hist s"
  "hist (text_tool_start_pos_update f37 s) = hist s"
  "hist (text_tool_is_dragging_update f38 s) = hist s"
  "hist (clipboard_update f39 s) = hist s"
  by (simp_all add: hist_def)

lemma hist_ok_hist: "hist s' = hist s \<Longrightarrow> hist_ok s' = hist_ok s"
  by (simp add: hist_def hist_ok_def split: option.splits)

lemma hist_upd_item [simp]: "hist (upd_item r f s) = hist s"
  by (simp add: hist_def upd_item_def)

lemma hist_start_editing [simp]: "hist (start_inline_text_editing r s) = hist s"
  by (simp add: hist_def start_inline_text_editing_def)

lemma hist_start_long_press [simp]: "hist (start_long_press p tg s) = hist s"
  by (simp add: hist_def start_long_press_def)

lemma hist_start_text_resize [simp]: "hist (start_text_resize r h p s) = hist s"
proof -
  have "hist (start_text_resize r h p s)
        = hist (s\<lparr>active_text_item := Some r, text_resizing := True,
                   text_resize_handle := Some h, text_drag_start := p\<rparr>)"
    unfolding start_text_resize_def by (rule hist_upd_item)
  also have "\<dots> = hist s" by (simp add: hist_def)
  finally show ?thesis .
qed

lemma hist_press_text_items:
  "press_text_items p rs s = Some s' \<Longrightarrow> hist s' = hist s"
  by (induction rs) (auto simp: Let_def split: if_splits)

lemma hist_on_long_press [simp]: "hist (on_long_press_detected it s) = hist s"
  by (simp add: hist_def on_long_press_detected_def)

lemma hist_timer [simp]: "hist (timer_timeout s) = hist s"
  by (simp add: timer_timeout_def hist_def on_long_press_detected_def split: option.splits)

lemma hist_update_selection_rect [simp]: "hist (update_selection_rect s) = hist s"
  by (simp add: update_selection_rect_def hist_def)

lemma hist_resize_selection [simp]: "hist (resize_selection p s) = hist s"
  by (simp add: resize_selection_def hist_def split: option.splits)

lemma hist_hover [simp]: "hist (update_hover_state p s) = hist s"
  by (simp add: update_hover_state_def hist_def)

lemma hist_cancel_long [simp]: "hist (move_cancel_long_press ev s) = hist s"
  by (simp add: move_cancel_long_press_def hist_def split: option.splits)

lemma hist_text_dragging [simp]: "hist (move_text_dragging a ev s) = hist s"
  by (simp add: move_text_dragging_def hist_def upd_item_def Let_def)

lemma hist_text_resizing [simp]: "hist (move_text_resizing a ev s) = hist s"
  by (simp add: move_text_resizing_def)

lemma hist_sel_dragging [simp]: "hist (move_selection_dragging ev s) = hist s"
  by (simp add: move_selection_dragging_def hist_def Let_def)

lemma hist_release_click [simp]: "hist (release_click_edit ev s) = hist s"
  by (simp add: release_click_edit_def split: option.splits)

lemma hist_insert_text [simp]: "hist (insert_text t s) = hist s"
  by (simp add: insert_text_def hist_def Let_def)

lemma hist_delete_selection [simp]: "hist (delete_selection s) = hist s"
  by (simp add: delete_selection_def hist_def Let_def)

lemma hist_ime [simp]: "hist (inputMethodEvent e s) = hist s"
  by (simp add: inputMethodEvent_def hist_def Let_def)

lemma hist_tool [simp]: "hist (set_drawing_tool t s) = hist s"
  by (simp add: set_drawing_tool_def hist_def)

lemma hist_brush [simp]: "hist (set_brush_size b z c s) = hist s"
proof -
  have "hist (s\<lparr>drawing_width := z\<rparr>) = hist s" by (simp add: hist_def)
  then show ?thesis
    by (simp add: set_brush_size_def Let_def split: option.splits)
qed

lemma hist_confirm [simp]: "hist (confirm_selection s) = hist s"
  by (simp add: confirm_selection_def close_app_def hist_def Let_def)

lemma hist_cancel [simp]: "hist (cancel_selection s) = hist s"
  by (simp add: cancel_selection_def close_app_def hist_def)


lemma remove1_if: "(if r \<in> set xs then remove1 r xs else xs) = remove1 r xs"
  by (simp add: remove1_idem)

lemma finish_drawing_items:
  "drawing_items (finish_inline_text_editing s) =
     (case editing_text_item s of
        None \<Rightarrow> drawing_items s
      | Some r \<Rightarrow> if inline_editing s \<and> strip (text_input_buffer s) = []
                  then remove1 r (drawing_items s) else drawing_items s)"
  by (simp add: finish_inline_text_editing_def upd_item_def Let_def remove1_idem
      split: option.splits)

lemma finish_undo_stack:
  "undo_stack (finish_inline_text_editing s) =
     (case editing_text_item s of
        None \<Rightarrow> undo_stack s
      | Some r \<Rightarrow> if inline_editing s \<and> strip (text_input_buffer s) = []
                  then remove1 r (undo_stack s) else undo_stack s)"
  by (simp add: finish_inline_text_editing_def upd_item_def Let_def remove1_idem
      split: option.splits)

lemma finish_frame:
  "redo_stack (finish_inline_text_editing s) = redo_stack s"
  "length (objs (finish_inline_text_editing s)) = length (objs s)"
  "current_drawing_item (finish_inline_text_editing s) = current_drawing_item s"
  by (simp_all add: finish_inline_text_editing_def upd_item_def Let_def split: option.splits)

lemma hist_ok_shrink:
  assumes "hist_ok s"
    and "length (objs s') = length (objs s)"
    and "current_drawing_item s' = current_drawing_item s"
    and "redo_stack s' = redo_stack s"
    and "drawing_items s' = drawing_items s \<or> (\<exists>r. drawing_items s' = remove1 r (drawing_items s))"
    and "undo_stack s' = undo_stack s \<or> (\<exists>r. undo_stack s' = remove1 r (undo_stack s))"
  shows "hist_ok s'"
proof -
  have d: "distinct (drawing_items s')" "set (drawing_items s') \<subseteq> set (drawing_items s)"
    using assms(1,5) by (auto simp: hist_ok_def dest: notin_set_remove1)
  have u: "distinct (undo_stack s')" "set (undo_stack s') \<subseteq> set (undo_stack s)"
    using assms(1,6) by (auto simp: hist_ok_def dest: notin_set_remove1)
  show ?thesis
    using assms(1-4) d u
    unfolding hist_ok_def list_all_iff
    by (auto split: option.splits)
qed

lemma hist_ok_finish: "hist_ok s \<Longrightarrow> hist_ok (finish_inline_text_editing s)"
  by (rule hist_ok_shrink[where s = s])
     (auto simp: finish_drawing_items finish_undo_stack finish_frame split: option.splits)


lemma hist_key_edit:
  assumes "key ev \<noteq> Key_Escape" "key ev \<noteq> Key_Return" "key ev \<noteq> Key_Enter"
  shows "hist (keyPressEvent ev s) = hist s"
  using assms
  by (simp add: keyPressEvent_def Let_def split: option.splits)

lemma hist_ok_key: "hist_ok s \<Longrightarrow> hist_ok (keyPressEvent ev s)"
proof -
  assume ok: "hist_ok s"
  consider (esc) "key ev = Key_Escape" | (ret) "key ev = Key_Return \<or> key ev = Key_Enter"
    | (other) "key ev \<noteq> Key_Escape" "key ev \<noteq> Key_Return" "key ev \<noteq> Key_Enter"
    by blast
  then show ?thesis
  proof cases
    case esc
    show ?thesis
    proof (cases "inline_editing s")
      case False
      then have "keyPressEvent ev s = cancel_selection s"
        using esc by (simp add: keyPressEvent_def)
      then show ?thesis using ok hist_ok_hist[OF hist_cancel] by simp
    next
      case True
      define s1 where "s1 = (case editing_text_item s of None \<Rightarrow> s
          | Some r \<Rightarrow> if r \<in> set (drawing_items s)
                      then s\<lparr>drawing_items := remove1 r (drawing_items s)\<rparr> else s)"
      have k: "keyPressEvent ev s = finish_inline_text_editing s1"
        using esc True by (simp add: keyPressEvent_def s1_def)
      have "hist_ok s1"
        by (rule hist_ok_shrink[OF ok]) (auto simp: s1_def split: option.splits)
      then show ?thesis unfolding k by (rule hist_ok_finish)
    qed
  next
    case ret
    then have "keyPressEvent ev s = finish_inline_text_editing s
        \<or> keyPressEvent ev s = confirm_selection s \<or> keyPressEvent ev s = s"
      by (auto simp: keyPressEvent_def)
    then show ?thesis
      using ok hist_ok_finish[OF ok] hist_ok_hist[OF hist_confirm, of s] by auto
  next
    case other
    then show ?thesis using ok hist_ok_hist[OF hist_key_edit] by simp
  qed
qed

lemma hist_ok_new_current:
  assumes "hist_ok s"
  shows "hist_ok ((snd (new_item it s))\<lparr>current_drawing_item := Some (fst (new_item it s))\<rparr>)"
  using assms unfolding hist_ok_def list_all_iff new_item_def
  by (auto split: option.splits intro: less_SucI)

lemma hist_ok_press_drawing:
  assumes "hist_ok s" "press_drawing ev s = Return s' \<or> press_drawing ev s = Continue s'"
  shows "hist_ok s'"
proof -
  let ?it = "add_point (ev_pos ev) (DrawingItem_init (current_tool s) (drawing_color s) (drawing_width s))"
  let ?n = "(snd (new_item ?it s))\<lparr>current_drawing_item := Some (fst (new_item ?it s))\<rparr>"
  have n: "hist_ok ?n" by (rule hist_ok_new_current[OF assms(1)])
  have "s' = s \<or> s' = s\<lparr>text_tool_start_pos := ev_pos ev, text_tool_is_dragging := False\<rparr>
        \<or> s' = ?n\<lparr>drawing_start_point := Some (ev_pos ev)\<rparr>"
    using assms(2)
    by (auto simp: press_drawing_def Let_def split_beta split: if_splits)
  moreover have "hist (s\<lparr>text_tool_start_pos := ev_pos ev, text_tool_is_dragging := False\<rparr>) = hist s"
    by (simp add: hist_def)
  moreover have "hist (?n\<lparr>drawing_start_point := Some (ev_pos ev)\<rparr>) = hist ?n"
    by (simp add: hist_def)
  ultimately show ?thesis
    using assms(1) n hist_ok_hist by metis
qed

lemma hist_ok_text_tool_drag: "hist_ok s \<Longrightarrow> hist_ok (move_text_tool_drag ev s)"
proof -
  assume ok: "hist_ok s"
  let ?it = "add_point (text_tool_start_pos s) (DrawingItem_init (current_tool s) (drawing_color s) (drawing_width s))"
  let ?n = "(snd (new_item ?it s))\<lparr>current_drawing_item := Some (fst (new_item ?it s))\<rparr>"
  have n: "hist_ok ?n" by (rule hist_ok_new_current[OF ok])
  have "move_text_tool_drag ev s = s \<or>
        move_text_tool_drag ev s = ?n\<lparr>text_tool_is_dragging := True,
            drawing_start_point := Some (text_tool_start_pos s)\<rparr>"
    by (auto simp: move_text_tool_drag_def Let_def split_beta)
  moreover have "hist (?n\<lparr>text_tool_is_dragging := True,
            drawing_start_point := Some (text_tool_start_pos s)\<rparr>) = hist ?n"
    by (simp add: hist_def)
  ultimately show ?thesis using ok n hist_ok_hist by metis
qed

lemma hist_ok_commit:
  assumes "hist_ok s" "r < length (objs s)"
    "r \<notin> set (drawing_items s)" "r \<notin> set (undo_stack s)"
  shows "hist_ok ((commit_item r s)\<lparr>current_drawing_item := None\<rparr>)"
  using assms unfolding hist_ok_def list_all_iff commit_item_def
  by (auto split: option.splits)

lemma hist_ok_undo: "hist_ok s \<Longrightarrow> hist_ok (undo_drawing s)"
proof (cases "undo_stack s = []")
  case True
  then show "hist_ok s \<Longrightarrow> hist_ok (undo_drawing s)" by (simp add: undo_drawing_def)
next
  case False
  assume ok: "hist_ok s"
  obtain us x where u: "undo_stack s = us @ [x]"
    using False by (metis rev_exhaust)
  have f: "drawing_items (undo_drawing s) = remove1 x (drawing_items s)"
    "undo_stack (undo_drawing s) = us" "redo_stack (undo_drawing s) = redo_stack s @ [x]"
    "length (objs (undo_drawing s)) = length (objs s)"
    "current_drawing_item (undo_drawing s) = current_drawing_item s"
    using u by (simp_all add: undo_drawing_def Let_def remove1_idem)
  have "set (remove1 x (drawing_items s)) = set (drawing_items s) - {x}"
    using ok by (simp add: hist_ok_def)
  then show "hist_ok (undo_drawing s)"
    using ok u unfolding hist_ok_def list_all_iff f
    by (auto split: option.splits)
qed

lemma hist_ok_redo: "hist_ok s \<Longrightarrow> hist_ok (redo_drawing s)"
proof (cases "redo_stack s = []")
  case True
  then show "hist_ok s \<Longrightarrow> hist_ok (redo_drawing s)" by (simp add: redo_drawing_def)
next
  case False
  assume ok: "hist_ok s"
  obtain rs x where u: "redo_stack s = rs @ [x]"
    using False by (metis rev_exhaust)
  have f: "drawing_items (redo_drawing s) = drawing_items s @ [x]"
    "undo_stack (redo_drawing s) = undo_stack s @ [x]" "redo_stack (redo_drawing s) = rs"
    "length (objs (redo_drawing s)) = length (objs s)"
    "current_drawing_item (redo_drawing s) = current_drawing_item s"
    using u by (simp_all add: redo_drawing_def Let_def)
  show "hist_ok (redo_drawing s)"
    using ok u unfolding hist_ok_def list_all_iff f
    by (auto split: option.splits)
qed


lemma hist_ok_handle_text_input: "hist_ok s \<Longrightarrow> hist_ok (handle_text_input pos s)"
proof -
  assume ok: "hist_ok s"
  define it where "it = (add_point (mkPoint (px pos + 250) (py pos + 80))
      (add_point pos (DrawingItem_init text_tool (drawing_color s) (drawing_width s))))\<lparr>text_content := []\<rparr>"
  define s1 where "s1 = s\<lparr>objs := objs s @ [it]\<rparr>"
  have h: "handle_text_input pos s = start_inline_text_editing (length (objs s)) (commit_item (length (objs s)) s1)"
    by (simp add: handle_text_input_def Let_def new_item_def it_def s1_def)
  have "hist_ok (commit_item (length (objs s)) s1)"
    using ok unfolding hist_ok_def list_all_iff commit_item_def s1_def
    by (auto split: option.splits intro: less_SucI)
  then show ?thesis
    unfolding h using hist_ok_hist[OF hist_start_editing] by blast
qed

lemma hist_ok_release_drawing:
  assumes "hist_ok s" "current_drawing_item s = Some r"
  shows "hist_ok (release_drawing r ev s)"
proof -
  define s2 where "s2 = (let s1 = upd_item r (add_point (ev_pos ev)) s
     in if current_tool s1 = text_tool
        then start_inline_text_editing r (upd_item r (\<lambda>it. it\<lparr>text_content := []\<rparr>) s1)
        else s1)"
  have h2: "hist s2 = hist s" by (simp add: s2_def Let_def)
  have ok2: "hist_ok s2" using assms(1) hist_ok_hist[OF h2] by simp
  have c2: "current_drawing_item s2 = Some r" "length (objs s2) = length (objs s)"
    "drawing_items s2 = drawing_items s" "undo_stack s2 = undo_stack s"
    using h2 assms(2) by (simp_all add: hist_def)
  have fresh: "r < length (objs s2)" "r \<notin> set (drawing_items s2)" "r \<notin> set (undo_stack s2)"
    using ok2 c2(1) by (auto simp: hist_ok_def)
  have "release_drawing r ev s = (commit_item r s2)\<lparr>current_drawing_item := None,
      text_tool_start_pos := nullPoint, text_tool_is_dragging := False\<rparr>"
    by (simp add: release_drawing_def s2_def Let_def)
  moreover have "hist ((commit_item r s2)\<lparr>current_drawing_item := None,
      text_tool_start_pos := nullPoint, text_tool_is_dragging := False\<rparr>)
      = hist ((commit_item r s2)\<lparr>current_drawing_item := None\<rparr>)"
    by (simp add: hist_def)
  ultimately show ?thesis
    using hist_ok_commit[OF ok2 fresh] hist_ok_hist by metis
qed

lemma hist_ok_press_editing:
  assumes "hist_ok s" "press_editing ev s = Return s' \<or> press_editing ev s = Continue s'"
  shows "hist_ok s'"
proof -
  have "s' = s \<or> s' = start_long_press (ev_pos ev) editing_target s
        \<or> s' = finish_inline_text_editing s"
    using assms(2) by (auto simp: press_editing_def split: option.splits if_splits)
  then show ?thesis
    using assms(1) hist_ok_finish[OF assms(1)] hist_ok_hist[OF hist_start_long_press] by metis
qed

lemma hist_press_double_click:
  assumes "press_double_click ev s = Return s' \<or> press_double_click ev s = Continue s'"
  shows "hist s' = hist s"
  using assms by (auto simp: press_double_click_def split: option.splits if_splits)

lemma hist_press_selection:
  assumes "press_selection ev s = Return s' \<or> press_selection ev s = Continue s'"
  shows "hist s' = hist s"
  using assms
  by (auto simp: press_selection_def hist_press_text_items split: option.splits if_splits)

lemma hist_press_new_selection [simp]: "hist (press_new_selection ev s) = hist s"
  by (simp add: press_new_selection_def)

lemma flow_cases: "(\<exists>s'. f = Return s') \<or> (\<exists>s'. f = Continue s')"
  by (cases f) auto

lemma hist_ok_press: "hist_ok s \<Longrightarrow> hist_ok (mousePressEvent ev s)"
proof -
  assume ok: "hist_ok s"
  show ?thesis
  proof (cases "ev_button ev = LeftButton")
    case False
    then show ?thesis using ok by (simp add: mousePressEvent_def)
  next
    case True
    show ?thesis
    proof (cases "press_editing ev s")
      case (Return s')
      then show ?thesis
        using True hist_ok_press_editing[OF ok, of ev s'] by (simp add: mousePressEvent_def)
    next
      case c1: (Continue s1)
      have ok1: "hist_ok s1" using hist_ok_press_editing[OF ok, of ev s1] c1 by simp
      show ?thesis
      proof (cases "press_double_click ev s1")
        case (Return s')
        then show ?thesis
          using True c1 ok1 hist_ok_hist[OF hist_press_double_click, of ev s1 s']
          by (simp add: mousePressEvent_def)
      next
        case c2: (Continue s2)
        have ok2: "hist_ok s2"
          using c2 ok1 hist_ok_hist[OF hist_press_double_click, of ev s1 s2] by simp
        define s3 where "s3 = s2\<lparr>last_click_time := ev_time ev, last_click_pos := ev_pos ev\<rparr>"
        have ok3: "hist_ok s3" using ok2 hist_ok_hist[of s3 s2] by (simp add: s3_def)
        show ?thesis
        proof (cases "press_drawing ev s3")
          case (Return s')
          then show ?thesis
            using True c1 c2 hist_ok_press_drawing[OF ok3, of ev s']
            by (simp add: mousePressEvent_def s3_def Let_def)
        next
          case c4: (Continue s4)
          have ok4: "hist_ok s4" using hist_ok_press_drawing[OF ok3, of ev s4] c4 by simp
          show ?thesis
          proof (cases "press_selection ev s4")
            case (Return s')
            then show ?thesis
              using True c1 c2 c4 ok4 hist_ok_hist[OF hist_press_selection, of ev s4 s']
              by (simp add: mousePressEvent_def s3_def Let_def)
          next
            case c5: (Continue s5)
            have ok5: "hist_ok s5"
              using c5 ok4 hist_ok_hist[OF hist_press_selection, of ev s4 s5] by simp
            show ?thesis
              using True c1 c2 c4 c5 ok5 hist_ok_hist[OF hist_press_new_selection, of ev s5]
              by (simp add: mousePressEvent_def s3_def Let_def)
          qed
        qed
      qed
    qed
  qed
qed

lemma hist_ok_move_gesture: "hist_ok s \<Longrightarrow> hist_ok (move_gesture ev s)"
proof -
  have "hist (move_gesture ev s) = hist s"
    by (simp add: move_gesture_def split: option.splits)
  then show "hist_ok s \<Longrightarrow> hist_ok (move_gesture ev s)"
    using hist_ok_hist by blast
qed

lemma hist_ok_move: "hist_ok s \<Longrightarrow> hist_ok (mouseMoveEvent ev s)"
  unfolding mouseMoveEvent_def
  using hist_ok_hist[OF hist_cancel_long, of ev s]
  by (intro hist_ok_move_gesture hist_ok_text_tool_drag) simp

lemma hist_ok_release_gesture: "hist_ok s \<Longrightarrow> hist_ok (release_gesture ev s)"
proof -
  assume ok: "hist_ok s"
  show ?thesis
  proof (cases "text_dragging s \<or> text_resizing s")
    case True
    then have "hist (release_gesture ev s) = hist s" by (simp add: release_gesture_def)
    then show ?thesis using ok hist_ok_hist by blast
  next
    case nt: False
    show ?thesis
    proof (cases "drawing_in_progress s")
      case (Some r)
      then have "current_drawing_item s = Some r"
        by (simp add: drawing_in_progress_def split: if_splits)
      then show ?thesis
        using nt Some hist_ok_release_drawing[OF ok] by (simp add: release_gesture_def)
    next
      case None
      show ?thesis
      proof (cases "current_tool s = text_tool \<and> \<not> isNull (text_tool_start_pos s)
                  \<and> \<not> text_tool_is_dragging s")
        case True
        have "hist (release_gesture ev s) = hist (handle_text_input (text_tool_start_pos s) s)"
          using nt None True by (simp add: release_gesture_def)
        then show ?thesis using hist_ok_handle_text_input[OF ok] hist_ok_hist by blast
      next
        case False
        then have "hist (release_gesture ev s) = hist s"
          using nt None by (auto simp: release_gesture_def)
        then show ?thesis using ok hist_ok_hist by blast
      qed
    qed
  qed
qed

lemma hist_ok_release: "hist_ok s \<Longrightarrow> hist_ok (mouseReleaseEvent ev s)"
proof -
  assume ok: "hist_ok s"
  have "hist ((release_click_edit ev (s\<lparr>text_press_timer := None\<rparr>))
             \<lparr>is_long_pressing := False, text_press_start_pos := nullPoint\<rparr>) = hist s"
    by simp
  then have "hist_ok ((release_click_edit ev (s\<lparr>text_press_timer := None\<rparr>))
             \<lparr>is_long_pressing := False, text_press_start_pos := nullPoint\<rparr>)"
    using ok hist_ok_hist by blast
  then show ?thesis
    using ok by (simp add: mouseReleaseEvent_def hist_ok_release_gesture)
qed

lemma hist_ok_init: "hist_ok (overlay_init scr)"
  by (simp add: hist_ok_def overlay_init_def)

lemma reachable_hist_ok: "reachable s \<Longrightarrow> hist_ok s"
proof (induction rule: reachable.induct)
  case (r_init scr)
  show ?case by (rule hist_ok_init)
next
  case (r_press s ev)
  then show ?case by (simp add: hist_ok_press)
next
  case (r_move s ev)
  then show ?case by (simp add: hist_ok_move)
next
  case (r_release s ev)
  then show ?case by (simp add: hist_ok_release)
next
  case (r_key s kev)
  then show ?case by (simp add: hist_ok_key)
next
  case (r_ime s iev)
  then show ?case using hist_ok_hist[OF hist_ime] by simp
next
  case (r_timer s)
  then show ?case using hist_ok_hist[OF hist_timer] by simp
next
  case (r_undo s)
  then show ?case by (simp add: hist_ok_undo)
next
  case (r_redo s)
  then show ?case by (simp add: hist_ok_redo)
next
  case (r_tool s t)
  then show ?case using hist_ok_hist[OF hist_tool] by simp
next
  case (r_size s bounds sz is_custom)
  then show ?case using hist_ok_hist[OF hist_brush] by simp
next
  case (r_clip s c)
  then show ?case using hist_ok_hist[of "s\<lparr>clipboard := c\<rparr>" s] by simp
qed

section \<open>The scenario states\<close>

text \<open>Each scenario state is reachable, and its value is the initial state with the
  fields below changed.\<close>

lemma reachable_moves:
  "reachable s \<Longrightarrow> reachable (foldl (\<lambda>t m. mouseMoveEvent m t) s ms)"
  by (induction ms arbitrary: s) (simp_all add: r_move)

lemma reachable_gesture: "reachable s \<Longrightarrow> reachable (gesture p ms r s)"
  unfolding gesture_def by (intro r_release reachable_moves r_press)

lemma reachable_demo_selected: "reachable demo_selected"
  unfolding demo_selected_def by (intro reachable_gesture r_init)

lemma reachable_demo_text_new: "reachable demo_text_new"
  unfolding demo_text_new_def by (intro reachable_gesture r_tool reachable_demo_selected)

lemma reachable_demo_text_hi: "reachable demo_text_hi"
  unfolding demo_text_hi_def by (intro r_key reachable_demo_text_new)

lemma reachable_demo_text_reedit: "reachable demo_text_reedit"
  unfolding demo_text_reedit_def by (intro reachable_gesture reachable_demo_text_hi)

lemma reachable_demo_text_typed: "reachable demo_text_typed"
  unfolding demo_text_typed_def by (intro r_key reachable_demo_text_reedit)

lemma reachable_demo_arrow_pressed: "reachable demo_arrow_pressed"
  unfolding demo_arrow_pressed_def by (intro r_press r_tool reachable_demo_selected)

lemma reachable_demo_right_edge: "reachable demo_right_edge"
  unfolding demo_right_edge_def by (intro reachable_gesture r_init)

lemma reachable_demo_left_handle: "reachable demo_left_handle"
  unfolding demo_left_handle_def by (intro r_press reachable_demo_right_edge)

lemma demo_selected_eq:
  "demo_selected =
     (overlay_init (mkRect 0 0 800 600))
       \<lparr>start_point := mkPoint 100 100, end_point := mkPoint 300 250,
        selection_rect := \<lparr>rx1 = 100, ry1 = 100, rx2 = 300, ry2 = 250\<rparr>,
        last_click_time := 1000, last_click_pos := mkPoint 100 100\<rparr>"
  by code_simp

lemma demo_text_new_eq:
  "demo_text_new =
     demo_selected
       \<lparr>drawing_mode := True, current_tool := text_tool, text_input_mode := True,
        objs := [\<lparr>tool_type = text_tool, color = (255, 0, 0, 255), pen_width = 3,
                  points = [mkPoint 105 105, mkPoint 355 185], text_content = [],
                  text_size_mode = auto_mode, custom_font_size = 14,
                  was_manually_resized = False, initial_font_size = 3\<rparr>],
        drawing_items := [0], undo_stack := [0], inline_editing := True,
        editing_text_item := Some 0, last_click_time := 5000,
        last_click_pos := mkPoint 105 105\<rparr>"
  unfolding demo_text_new_def demo_selected_eq by code_simp

lemma demo_text_hi_eq:
  "demo_text_hi =
     demo_text_new
       \<lparr>objs := [\<lparr>tool_type = text_tool, color = (255, 0, 0, 255), pen_width = 3,
                  points = [mkPoint 105 105, mkPoint 355 185], text_content = ''Hi'',
                  text_size_mode = auto_mode, custom_font_size = 14,
                  was_manually_resized = False, initial_font_size = 3\<rparr>],
        inline_editing := False, editing_text_item := None,
        text_selection_start := 2, text_selection_end := 2\<rparr>"
  unfolding demo_text_hi_def demo_text_new_eq demo_selected_eq by code_simp

lemma demo_text_reedit_eq:
  "demo_text_reedit =
     demo_text_hi
       \<lparr>inline_editing := True, editing_text_item := Some 0, text_input_buffer := ''Hi'',
        cursor_position := 2, last_click_time := 9000, last_click_pos := mkPoint 200 150\<rparr>"
  unfolding demo_text_reedit_def demo_text_hi_eq demo_text_new_eq demo_selected_eq
  by code_simp

lemma demo_text_typed_eq:
  "demo_text_typed =
     demo_text_reedit
       \<lparr>text_input_buffer := ''Hi!'', cursor_position := 3,
        text_selection_start := 3, text_selection_end := 3\<rparr>"
  unfolding demo_text_typed_def demo_text_reedit_eq demo_text_hi_eq demo_text_new_eq
    demo_selected_eq
  by code_simp

lemma demo_arrow_pressed_eq:
  "demo_arrow_pressed =
     demo_selected
       \<lparr>drawing_mode := True, current_tool := arrow,
        objs := [\<lparr>tool_type = arrow, color = (255, 0, 0, 255), pen_width = 3,
                  points = [mkPoint 150 150], text_content = [],
                  text_size_mode = auto_mode, custom_font_size = 14,
                  was_manually_resized = False, initial_font_size = 3\<rparr>],
        current_drawing_item := Some 0, drawing_start_point := Some (mkPoint 150 150),
        last_click_time := 5000, last_click_pos := mkPoint 150 150\<rparr>"
  unfolding demo_arrow_pressed_def demo_selected_eq by code_simp

lemma demo_right_edge_eq:
  "demo_right_edge =
     (overlay_init (mkRect 0 0 800 600))
       \<lparr>start_point := mkPoint 700 100, end_point := mkPoint 799 199,
        selection_rect := \<lparr>rx1 = 700, ry1 = 100, rx2 = 799, ry2 = 199\<rparr>,
        last_click_time := 1000, last_click_pos := mkPoint 700 100\<rparr>"
  by code_simp

lemma demo_left_handle_eq:
  "demo_left_handle =
     demo_right_edge
       \<lparr>resizing := True, resize_handle := Some h_left,
        last_click_time := 5000, last_click_pos := mkPoint 700 150\<rparr>"
  unfolding demo_left_handle_def demo_right_edge_eq by code_simp


lemma reachable_demo_select_tool: "reachable demo_select_tool"
  unfolding demo_select_tool_def by (intro r_tool reachable_demo_text_hi)

lemma reachable_demo_sel_drag: "reachable demo_sel_drag"
  unfolding demo_sel_drag_def by (intro r_press reachable_demo_selected)

lemma reachable_demo_text_drag: "reachable demo_text_drag"
  unfolding demo_text_drag_def by (intro r_timer r_press reachable_demo_select_tool)

lemma demo_text_tool_eq:
  "demo_text_tool =
     demo_selected\<lparr>drawing_mode := True, current_tool := text_tool, text_input_mode := True\<rparr>"
  unfolding demo_text_tool_def demo_selected_eq by code_simp

lemma demo_select_tool_eq:
  "demo_select_tool =
     demo_text_hi\<lparr>drawing_mode := False, current_tool := select, text_input_mode := False\<rparr>"
  unfolding demo_select_tool_def demo_text_hi_eq demo_text_new_eq demo_selected_eq
  by code_simp

lemma demo_sel_drag_eq:
  "demo_sel_drag =
     demo_selected
       \<lparr>dragging := True, drag_offset := mkPoint 100 50,
        last_click_time := 5000, last_click_pos := mkPoint 200 150\<rparr>"
  unfolding demo_sel_drag_def demo_selected_eq by code_simp

lemma demo_text_drag_eq:
  "demo_text_drag =
     demo_select_tool
       \<lparr>last_click_time := 12000, last_click_pos := mkPoint 200 150,
        text_press_start_pos := mkPoint 200 150,
        text_press_timer := Some \<lparr>isActive = False, target = item_target 0\<rparr>,
        is_long_pressing := True, active_text_item := Some 0, text_dragging := True,
        text_drag_start := mkPoint 200 150\<rparr>"
  unfolding demo_text_drag_def demo_select_tool_eq demo_text_hi_eq demo_text_new_eq
    demo_selected_eq
  by code_simp

lemmas demo_eqs = demo_text_drag_eq demo_sel_drag_eq demo_select_tool_eq demo_text_tool_eq
  demo_left_handle_eq demo_right_edge_eq demo_arrow_pressed_eq demo_text_typed_eq
  demo_text_reedit_eq demo_text_hi_eq demo_text_new_eq demo_selected_eq

section \<open>Resizing the selection\<close>

text \<open>
  C1. Claimed: after any sequence of resize-handle drags the selection satisfies
  \<open>x \<ge> 0\<close>, \<open>y \<ge> 0\<close>, \<open>x + w \<le> screen_w\<close>, \<open>y + h \<le> screen_h\<close>, \<open>w \<ge> 20\<close> and
  \<open>h \<ge> 20\<close>. The code does not keep \<open>x + w \<le> screen_w\<close>: on an 800 by 600 screen,
  with the selection (700, 100, 100, 100) and its left handle pressed, a move of the
  pointer to (781, 150) leaves the selection (781, 100, 20, 100), whose right edge
  \<open>x + w = 801\<close> is one pixel beyond the screen. The minimum width is enforced by
  moving the right edge, and the check that follows compares \<open>right()\<close>, which is
  \<open>x + w - 1\<close>, with the screen's width.
\<close>

theorem resize_drag_leaves_screen:
  "selection_rect demo_left_handle = mkRect 700 100 100 100
   \<and> resizing demo_left_handle \<and> resize_handle demo_left_handle = Some h_left
   \<and> width (screen_rect demo_left_handle) = 800
   \<and> selection_rect (mouseMoveEvent (mouse 781 150 5100) demo_left_handle)
       = mkRect 781 100 20 100
   \<and> left (selection_rect (mouseMoveEvent (mouse 781 150 5100) demo_left_handle))
       + width (selection_rect (mouseMoveEvent (mouse 781 150 5100) demo_left_handle)) = 801"
  unfolding demo_eqs by code_simp

section \<open>Dragging the selection and dragging a text box\<close>

lemma cancel_long_press_eq:
  "\<exists>t. move_cancel_long_press ev s = s\<lparr>text_press_timer := t\<rparr>"
proof (cases "move_cancel_long_press ev s = s")
  case True
  then have "move_cancel_long_press ev s = s\<lparr>text_press_timer := text_press_timer s\<rparr>" by simp
  then show ?thesis by blast
next
  case False
  then have "move_cancel_long_press ev s = s\<lparr>text_press_timer := None\<rparr>"
    by (simp add: move_cancel_long_press_def split: option.splits if_splits)
  then show ?thesis by blast
qed

lemma text_tool_drag_null:
  "isNull (text_tool_start_pos t) \<Longrightarrow> move_text_tool_drag ev t = t"
  by (simp add: move_text_tool_drag_def)

lemma active_text_box_False: "active_text_box False s = None"
  by (simp add: active_text_box_def split: option.splits)

lemma selection_drag_move:
  assumes "selection_drag_in_progress s"
  shows "\<exists>t. mouseMoveEvent ev s = move_selection_dragging ev (s\<lparr>text_press_timer := t\<rparr>)"
proof -
  obtain t where s1: "move_cancel_long_press ev s = s\<lparr>text_press_timer := t\<rparr>"
    using cancel_long_press_eq by blast
  let ?s1 = "s\<lparr>text_press_timer := t\<rparr>"
  have s2: "move_text_tool_drag ev ?s1 = ?s1"
    using assms by (simp add: text_tool_drag_null selection_drag_in_progress_def)
  have d: "drawing_in_progress ?s1 = None"
    using assms by (simp add: drawing_in_progress_def selection_drag_in_progress_def)
  have "mouseMoveEvent ev s = move_selection_dragging ev ?s1"
    using assms
    by (simp add: mouseMoveEvent_def move_gesture_def s1 s2 d active_text_box_False
        selection_drag_in_progress_def)
  then show ?thesis by blast
qed

lemma text_drag_move:
  assumes "text_drag_in_progress a s"
  shows "\<exists>t. mouseMoveEvent ev s = move_text_dragging a ev (s\<lparr>text_press_timer := t\<rparr>)"
proof -
  obtain t where s1: "move_cancel_long_press ev s = s\<lparr>text_press_timer := t\<rparr>"
    using cancel_long_press_eq by blast
  let ?s1 = "s\<lparr>text_press_timer := t\<rparr>"
  have s2: "move_text_tool_drag ev ?s1 = ?s1"
    using assms by (simp add: text_tool_drag_null text_drag_in_progress_def)
  have d: "drawing_in_progress ?s1 = None"
    using assms by (simp add: drawing_in_progress_def text_drag_in_progress_def)
  have a: "active_text_box True ?s1 = Some a"
    using assms by (simp add: active_text_box_def text_drag_in_progress_def)
  have "mouseMoveEvent ev s = move_text_dragging a ev ?s1"
    using assms
    by (simp add: mouseMoveEvent_def move_gesture_def s1 s2 d a text_drag_in_progress_def)
  then show ?thesis by blast
qed

lemma item_rect_set_item_rect:
  assumes "length (points it) \<ge> 2" "rx1 r \<le> rx2 r" "ry1 r \<le> ry2 r"
  shows "item_rect (set_item_rect r it) = r"
proof -
  define n where "n = length (points it)"
  define qs where "qs = (points it)[0 := topLeft r, n - 1 := bottomRight r]"
  have p: "points (set_item_rect r it) = qs"
    by (simp add: set_item_rect_def Let_def qs_def n_def)
  have n2: "2 \<le> n" "length qs = n" using assms(1) by (simp_all add: n_def qs_def)
  have pos: "0 < length (points it)" "n - 1 \<noteq> 0" "n - 1 < length (points it)"
    using assms(1) by (auto simp: n_def)
  have "qs ! 0 = topLeft r"
    using pos by (simp add: qs_def nth_list_update)
  moreover have "last qs = bottomRight r"
  proof -
    have "qs \<noteq> []" using n2 by auto
    then have "last qs = qs ! (n - 1)" using n2 by (simp add: last_conv_nth)
    also have "\<dots> = bottomRight r" using pos by (simp add: qs_def)
    finally show ?thesis .
  qed
  ultimately show ?thesis
    using assms(2,3) by (simp add: item_rect_def p rect_defs)
qed

text \<open>
  C10. During a drag of the whole selection, and during a drag of the body of a text
  item, a pointer move changes only the position of the dragged rectangle when the
  rectangle has at least the minimum width and height (20 pixels) and the translated
  rectangle fits within the screen: the width and the height after the move are
  those before it, and the rectangle is the translated one. (The dragged rectangle
  of a text item is the box of its first and last point.)
\<close>

theorem drag_move_keeps_size:
  "(selection_drag_in_progress s
    \<and> MIN_SELECTION_SIZE \<le> width (selection_rect s)
    \<and> MIN_SELECTION_SIZE \<le> height (selection_rect s)
    \<and> fits_screen (screen_rect s)
          (rectPS (psub (ev_pos ev) (drag_offset s)) (rsize (selection_rect s)))
    \<longrightarrow> width (selection_rect (mouseMoveEvent ev s)) = width (selection_rect s)
        \<and> height (selection_rect (mouseMoveEvent ev s)) = height (selection_rect s)
        \<and> topLeft (selection_rect (mouseMoveEvent ev s)) = psub (ev_pos ev) (drag_offset s))
   \<and> (text_drag_in_progress a s
    \<and> MIN_SELECTION_SIZE \<le> width (item_rect (objs s ! a))
    \<and> MIN_SELECTION_SIZE \<le> height (item_rect (objs s ! a))
    \<and> fits_screen (screen_rect s)
          (rectPS (padd (topLeft (item_rect (objs s ! a))) (psub (ev_pos ev) (text_drag_start s)))
             (rsize (item_rect (objs s ! a))))
    \<longrightarrow> width (item_rect (objs (mouseMoveEvent ev s) ! a)) = width (item_rect (objs s ! a))
        \<and> height (item_rect (objs (mouseMoveEvent ev s) ! a)) = height (item_rect (objs s ! a))
        \<and> topLeft (item_rect (objs (mouseMoveEvent ev s) ! a))
            = padd (topLeft (item_rect (objs s ! a))) (psub (ev_pos ev) (text_drag_start s)))"
proof (intro conjI impI)
  let ?nr = "rectPS (psub (ev_pos ev) (drag_offset s)) (rsize (selection_rect s))"
  assume h: "selection_drag_in_progress s
    \<and> MIN_SELECTION_SIZE \<le> width (selection_rect s)
    \<and> MIN_SELECTION_SIZE \<le> height (selection_rect s)
    \<and> fits_screen (screen_rect s) ?nr"
  have w: "width ?nr = width (selection_rect s)" "height ?nr = height (selection_rect s)"
    "topLeft ?nr = psub (ev_pos ev) (drag_offset s)"
    by (simp_all add: rect_defs)
  have c: "constrain_to_screen (screen_rect s) ?nr = ?nr"
    using h w by (intro constrain_to_screen_fits) simp_all
  obtain t where "mouseMoveEvent ev s = move_selection_dragging ev (s\<lparr>text_press_timer := t\<rparr>)"
    using selection_drag_move h by blast
  then have r: "selection_rect (mouseMoveEvent ev s) = ?nr"
    by (simp add: move_selection_dragging_def c)
  show "width (selection_rect (mouseMoveEvent ev s)) = width (selection_rect s)"
    "height (selection_rect (mouseMoveEvent ev s)) = height (selection_rect s)"
    "topLeft (selection_rect (mouseMoveEvent ev s)) = psub (ev_pos ev) (drag_offset s)"
    unfolding r by (rule w)+
next
  let ?r = "item_rect (objs s ! a)"
  let ?nr = "rectPS (padd (topLeft ?r) (psub (ev_pos ev) (text_drag_start s))) (rsize ?r)"
  assume h: "text_drag_in_progress a s
    \<and> MIN_SELECTION_SIZE \<le> width ?r \<and> MIN_SELECTION_SIZE \<le> height ?r
    \<and> fits_screen (screen_rect s) ?nr"
  have w: "width ?nr = width ?r" "height ?nr = height ?r"
    "topLeft ?nr = padd (topLeft ?r) (psub (ev_pos ev) (text_drag_start s))"
    by (simp_all add: rect_defs)
  have c: "constrain_to_screen (screen_rect s) ?nr = ?nr"
    using h w by (intro constrain_to_screen_fits) simp_all
  have n: "rx1 ?nr \<le> rx2 ?nr" "ry1 ?nr \<le> ry2 ?nr"
    using h w(1,2) by (simp_all add: width_def height_def MIN_SELECTION_SIZE_def)
  have l: "a < length (objs s)" "length (points (objs s ! a)) \<ge> 2"
    using h by (simp_all add: text_drag_in_progress_def)
  obtain t where "mouseMoveEvent ev s = move_text_dragging a ev (s\<lparr>text_press_timer := t\<rparr>)"
    using text_drag_move h by blast
  then have "objs (mouseMoveEvent ev s) ! a = set_item_rect ?nr (objs s ! a)"
    using l(1) by (simp add: move_text_dragging_def upd_item_def Let_def c)
  then have r: "item_rect (objs (mouseMoveEvent ev s) ! a) = ?nr"
    using item_rect_set_item_rect[OF l(2) n] by simp
  show "width (item_rect (objs (mouseMoveEvent ev s) ! a)) = width ?r"
    "height (item_rect (objs (mouseMoveEvent ev s) ! a)) = height ?r"
    "topLeft (item_rect (objs (mouseMoveEvent ev s) ! a))
       = padd (topLeft ?r) (psub (ev_pos ev) (text_drag_start s))"
    unfolding r by (rule w)+
qed

text \<open>Witness for C10: the selection (100,100)-(300,250) dragged by (50,50), and
  the text box (105,105)-(355,185) dragged by (10,10), on the 800 by 600 screen.\<close>

theorem drag_move_keeps_size_witness:
  "selection_drag_in_progress demo_sel_drag
   \<and> width (selection_rect demo_sel_drag) = 201
   \<and> height (selection_rect demo_sel_drag) = 151
   \<and> width (selection_rect (mouseMoveEvent (mouse 250 200 5100) demo_sel_drag)) = 201
   \<and> height (selection_rect (mouseMoveEvent (mouse 250 200 5100) demo_sel_drag)) = 151
   \<and> topLeft (selection_rect (mouseMoveEvent (mouse 250 200 5100) demo_sel_drag))
       = mkPoint 150 150
   \<and> text_drag_in_progress 0 demo_text_drag
   \<and> width (item_rect (objs demo_text_drag ! 0)) = 251
   \<and> height (item_rect (objs demo_text_drag ! 0)) = 81
   \<and> width (item_rect (objs (mouseMoveEvent (mouse 210 160 12100) demo_text_drag) ! 0)) = 251
   \<and> height (item_rect (objs (mouseMoveEvent (mouse 210 160 12100) demo_text_drag) ! 0)) = 81
   \<and> topLeft (item_rect (objs (mouseMoveEvent (mouse 210 160 12100) demo_text_drag) ! 0))
       = mkPoint 115 115"
proof -
  have h1: "selection_drag_in_progress demo_sel_drag
      \<and> MIN_SELECTION_SIZE \<le> width (selection_rect demo_sel_drag)
      \<and> MIN_SELECTION_SIZE \<le> height (selection_rect demo_sel_drag)
      \<and> fits_screen (screen_rect demo_sel_drag)
            (rectPS (psub (ev_pos (mouse 250 200 5100)) (drag_offset demo_sel_drag))
               (rsize (selection_rect demo_sel_drag)))"
    unfolding demo_eqs by code_simp
  have v1: "width (selection_rect demo_sel_drag) = 201"
    "height (selection_rect demo_sel_drag) = 151"
    "psub (ev_pos (mouse 250 200 5100)) (drag_offset demo_sel_drag) = mkPoint 150 150"
    unfolding demo_eqs by code_simp+
  have h2: "text_drag_in_progress 0 demo_text_drag
      \<and> MIN_SELECTION_SIZE \<le> width (item_rect (objs demo_text_drag ! 0))
      \<and> MIN_SELECTION_SIZE \<le> height (item_rect (objs demo_text_drag ! 0))
      \<and> fits_screen (screen_rect demo_text_drag)
            (rectPS (padd (topLeft (item_rect (objs demo_text_drag ! 0)))
                       (psub (ev_pos (mouse 210 160 12100)) (text_drag_start demo_text_drag)))
               (rsize (item_rect (objs demo_text_drag ! 0))))"
    unfolding demo_eqs by code_simp
  have v2: "width (item_rect (objs demo_text_drag ! 0)) = 251"
    "height (item_rect (objs demo_text_drag ! 0)) = 81"
    "padd (topLeft (item_rect (objs demo_text_drag ! 0)))
       (psub (ev_pos (mouse 210 160 12100)) (text_drag_start demo_text_drag)) = mkPoint 115 115"
    unfolding demo_eqs by code_simp+
  have c1: "width (selection_rect (mouseMoveEvent (mouse 250 200 5100) demo_sel_drag))
        = width (selection_rect demo_sel_drag)
      \<and> height (selection_rect (mouseMoveEvent (mouse 250 200 5100) demo_sel_drag))
        = height (selection_rect demo_sel_drag)
      \<and> topLeft (selection_rect (mouseMoveEvent (mouse 250 200 5100) demo_sel_drag))
        = psub (ev_pos (mouse 250 200 5100)) (drag_offset demo_sel_drag)"
    using drag_move_keeps_size[where s = demo_sel_drag and ev = "mouse 250 200 5100"] h1
    by blast
  have c2: "width (item_rect (objs (mouseMoveEvent (mouse 210 160 12100) demo_text_drag) ! 0))
        = width (item_rect (objs demo_text_drag ! 0))
      \<and> height (item_rect (objs (mouseMoveEvent (mouse 210 160 12100) demo_text_drag) ! 0))
        = height (item_rect (objs demo_text_drag ! 0))
      \<and> topLeft (item_rect (objs (mouseMoveEvent (mouse 210 160 12100) demo_text_drag) ! 0))
        = padd (topLeft (item_rect (objs demo_text_drag ! 0)))
            (psub (ev_pos (mouse 210 160 12100)) (text_drag_start demo_text_drag))"
    using drag_move_keeps_size[where s = demo_text_drag and ev = "mouse 210 160 12100"
        and a = 0] h2
    by blast
  show ?thesis
    using h1 h2 c1 c2 unfolding v1 v2 by simp
qed

section \<open>Commit, undo and redo\<close>

lemma undo_redo_after_commit:
  assumes "drawing_items c = L @ [r]" "undo_stack c = U @ [r]" "redo_stack c = []" "r \<notin> set L"
  shows "drawing_items (undo_drawing c) = L" "undo_stack (undo_drawing c) = U"
    "redo_stack (undo_drawing c) = [r]"
    "drawing_items (redo_drawing (undo_drawing c)) = L @ [r]"
    "undo_stack (redo_drawing (undo_drawing c)) = U @ [r]"
    "redo_stack (redo_drawing (undo_drawing c)) = []"
proof -
  have rm: "remove1 r (L @ [r]) = L"
    using assms(4) by (simp add: remove1_append)
  show u: "drawing_items (undo_drawing c) = L" "undo_stack (undo_drawing c) = U"
    "redo_stack (undo_drawing c) = [r]"
    using assms(1-3) rm by (simp_all add: undo_drawing_def Let_def)
  show "drawing_items (redo_drawing (undo_drawing c)) = L @ [r]"
    "undo_stack (redo_drawing (undo_drawing c)) = U @ [r]"
    "redo_stack (redo_drawing (undo_drawing c)) = []"
    using u by (simp_all add: redo_drawing_def Let_def)
qed

lemma release_drawing_lists:
  "drawing_items (release_drawing r ev s) = drawing_items s @ [r]"
  "undo_stack (release_drawing r ev s) = undo_stack s @ [r]"
  "redo_stack (release_drawing r ev s) = []"
  by (simp_all add: release_drawing_def commit_item_def Let_def upd_item_def
      start_inline_text_editing_def)

lemma handle_text_input_lists:
  "drawing_items (handle_text_input pos s) = drawing_items s @ [length (objs s)]"
  "undo_stack (handle_text_input pos s) = undo_stack s @ [length (objs s)]"
  "redo_stack (handle_text_input pos s) = []"
  by (simp_all add: handle_text_input_def commit_item_def Let_def new_item_def
      start_inline_text_editing_def)

lemma hist_ok_current_fresh:
  "hist_ok s \<Longrightarrow> current_drawing_item s = Some r \<Longrightarrow> r \<notin> set (drawing_items s)"
  by (simp add: hist_ok_def)

lemma hist_ok_new_fresh: "hist_ok s \<Longrightarrow> length (objs s) \<notin> set (drawing_items s)"
  by (auto simp: hist_ok_def list_all_iff)

text \<open>
  C2. From any reachable state, committing an item and then undoing restores the
  committed list \<open>drawing_items\<close> and the undo stack to what they were before the
  commit, and a redo after that undo restores both, and the empty redo stack, to what
  they were after the commit. The commit is the one the release of a drawing gesture
  makes for the gesture's item, and the one a click of the text tool makes for the
  text item it creates.
\<close>

theorem commit_undo_redo_round_trip:
  assumes "reachable s"
  shows "(current_drawing_item s = Some r \<longrightarrow>
            (let c = release_drawing r ev s; u = undo_drawing c; d = redo_drawing u
             in drawing_items c = drawing_items s @ [r] \<and> undo_stack c = undo_stack s @ [r]
                \<and> drawing_items u = drawing_items s \<and> undo_stack u = undo_stack s
                \<and> drawing_items d = drawing_items c \<and> undo_stack d = undo_stack c
                \<and> redo_stack d = redo_stack c))
         \<and> (let c = handle_text_input pos s; u = undo_drawing c; d = redo_drawing u
             in drawing_items c = drawing_items s @ [length (objs s)]
                \<and> undo_stack c = undo_stack s @ [length (objs s)]
                \<and> drawing_items u = drawing_items s \<and> undo_stack u = undo_stack s
                \<and> drawing_items d = drawing_items c \<and> undo_stack d = undo_stack c
                \<and> redo_stack d = redo_stack c)"
proof -
  have ok: "hist_ok s" using assms by (rule reachable_hist_ok)
  show ?thesis
  proof (intro conjI impI)
    assume cur: "current_drawing_item s = Some r"
    note f = hist_ok_current_fresh[OF ok cur]
    note l = release_drawing_lists[of r ev s]
    note u = undo_redo_after_commit[OF l f]
    show "let c = release_drawing r ev s; u = undo_drawing c; d = redo_drawing u
             in drawing_items c = drawing_items s @ [r] \<and> undo_stack c = undo_stack s @ [r]
                \<and> drawing_items u = drawing_items s \<and> undo_stack u = undo_stack s
                \<and> drawing_items d = drawing_items c \<and> undo_stack d = undo_stack c
                \<and> redo_stack d = redo_stack c"
      unfolding Let_def using l u by simp
  next
    note f = hist_ok_new_fresh[OF ok]
    note l = handle_text_input_lists[of pos s]
    note u = undo_redo_after_commit[OF l f]
    show "let c = handle_text_input pos s; u = undo_drawing c; d = redo_drawing u
             in drawing_items c = drawing_items s @ [length (objs s)]
                \<and> undo_stack c = undo_stack s @ [length (objs s)]
                \<and> drawing_items u = drawing_items s \<and> undo_stack u = undo_stack s
                \<and> drawing_items d = drawing_items c \<and> undo_stack d = undo_stack c
                \<and> redo_stack d = redo_stack c"
      unfolding Let_def using l u by simp
  qed
qed

text \<open>Witness for C2: the arrow of \<open>demo_arrow_pressed\<close> released at (250,150), and
  a text box created at (110,110) in the same state.\<close>

theorem commit_undo_redo_round_trip_witness:
  "reachable demo_arrow_pressed \<and> current_drawing_item demo_arrow_pressed = Some 0
   \<and> drawing_items demo_arrow_pressed = [] \<and> undo_stack demo_arrow_pressed = []
   \<and> drawing_items (release_drawing 0 (mouse 250 150 5200) demo_arrow_pressed) = [0]
   \<and> drawing_items (undo_drawing (release_drawing 0 (mouse 250 150 5200) demo_arrow_pressed))
       = []
   \<and> undo_stack (undo_drawing (release_drawing 0 (mouse 250 150 5200) demo_arrow_pressed))
       = []
   \<and> drawing_items (redo_drawing (undo_drawing
         (release_drawing 0 (mouse 250 150 5200) demo_arrow_pressed))) = [0]
   \<and> undo_stack (redo_drawing (undo_drawing
         (release_drawing 0 (mouse 250 150 5200) demo_arrow_pressed))) = [0]
   \<and> drawing_items (undo_drawing (handle_text_input (mkPoint 110 110) demo_arrow_pressed))
       = []"
proof -
  have cur: "current_drawing_item demo_arrow_pressed = Some 0"
    "drawing_items demo_arrow_pressed = []" "undo_stack demo_arrow_pressed = []"
    unfolding demo_eqs by code_simp+
  show ?thesis
    using commit_undo_redo_round_trip[OF reachable_demo_arrow_pressed,
        where r = 0 and ev = "mouse 250 150 5200" and pos = "mkPoint 110 110"]
      cur reachable_demo_arrow_pressed
    by (simp add: Let_def)
qed

section \<open>Ending a text-editing session\<close>

text \<open>
  The events of a session other than Escape and Enter change neither the history
  part of the state nor the item being edited (\<open>edit_session_frame\<close>); a session on
  an item that is the last of both lists, ended with a blank buffer, takes the item
  off both (\<open>end_blank_session\<close>).
\<close>

lemma editing_upd [simp]:
  "editing (screen_rect_update f0 s) = editing s"
  "editing (start_point_update f1 s) = editing s"
  "editing (end_point_update f2 s) = editing s"
  "editing (selecting_update f3 s) = editing s"
  "editing (selection_rect_update f4 s) = editing s"
  "editing (result_update f5 s) = editing s"
  "editing (closed_update f6 s) = editing s"
  "editing (dragging_update f7 s) = editing s"
  "editing (resizing_update f8 s) = editing s"
  "editing (resize_handle_update f9 s) = editing s"
  "editing (drag_offset_update f10 s) = editing s"
  "editing (hover_handle_update f11 s) = editing s"
  "editing (drawing_mode_update f12 s) = editing s"
  "editing (current_tool_update f13 s) = editing s"
  "editing (objs_update f14 s) = editing s"
  "editing (drawing_items_update f15 s) = editing s"
  "editing (current_drawing_item_update f16 s) = editing s"
  "editing (drawing_start_point_update f17 s) = editing s"
  "editing (drawing_color_update f18 s) = editing s"
  "editing (drawing_width_update f19 s) = editing s"
  "editing (undo_stack_update f20 s) = editing s"
  "editing (redo_stack_update f21 s) = editing s"
  "editing (text_input_mode_update f22 s) = editing s"
  "editing (active_text_item_update f23 s) = editing s"
  "editing (text_dragging_update f24 s) = editing s"
  "editing (text_resizing_update f25 s) = editing s"
  "editing (text_drag_start_update f26 s) = editing s"
  "editing (text_resize_handle_update f27 s) = editing s"
  "editing (text_input_buffer_update f28 s) = editing s"
  "editing (cursor_position_update f29 s) = editing s"
  "editing (last_click_time_update f30 s) = editing s"
  "editing (last_click_pos_update f31 s) = editing s"
  "editing (preedit_text_update f32 s) = editing s"
  "editing (preedit_cursor_pos_update f33 s) = editing s"
  "editing (text_selection_start_update f34 s) = editing s"
  "editing (text_selection_end_update f35 s) = editing s"
  "editing (text_press_timer_update f36 s) = editing s"
  "editing (text_press_start_pos_update f37 s) = editing s"
  "editing (is_long_pressing_update f38 s) = editing s"
  "editing (text_tool_start_pos_update f39 s) = editing s"
  "editing (text_tool_is_dragging_update f40 s) = editing s"
  "editing (clipboard_update f41 s) = editing s"
  by (simp_all add: editing_def)


lemma editing_upd_item [simp]: "editing (upd_item r f s) = editing s"
  by (simp add: upd_item_def)

lemma editing_insert_text [simp]: "editing (insert_text t s) = editing s"
  by (simp add: insert_text_def Let_def)

lemma editing_delete_selection [simp]: "editing (delete_selection s) = editing s"
  by (simp add: delete_selection_def Let_def)







lemma finish_not_editing: "\<not> inline_editing (finish_inline_text_editing s)"
  by (simp add: finish_inline_text_editing_def Let_def)







section \<open>Escape during a text-editing session\<close>


lemma finish_other_fields:
  "result (finish_inline_text_editing s) = result s"
  "closed (finish_inline_text_editing s) = closed s"
  "selection_rect (finish_inline_text_editing s) = selection_rect s"
  "editing_text_item (finish_inline_text_editing s) = None"
  "text_input_buffer (finish_inline_text_editing s) = []"
  by (simp_all add: finish_inline_text_editing_def upd_item_def Let_def split: option.splits)

text \<open>
  C5, as the code has it. Pressing Escape while a text-editing session is active ends
  the session (no item is being edited, the buffer is empty) and does not cancel the
  overlay: no result is stored, the window stays open and the selection is unchanged.
  The edited item is removed from the committed list in every case, whether it was
  newly created and still empty or a text item that existed before the session.
\<close>

theorem escape_ends_text_session:
  assumes "reachable s" "inline_editing s" "editing_text_item s = Some r" "key k = Key_Escape"
  shows "\<not> inline_editing (keyPressEvent k s)
         \<and> editing_text_item (keyPressEvent k s) = None
         \<and> text_input_buffer (keyPressEvent k s) = []
         \<and> result (keyPressEvent k s) = result s
         \<and> closed (keyPressEvent k s) = closed s
         \<and> selection_rect (keyPressEvent k s) = selection_rect s
         \<and> drawing_items (keyPressEvent k s) = remove1 r (drawing_items s)
         \<and> r \<notin> set (drawing_items (keyPressEvent k s))"
proof -
  have d: "distinct (drawing_items s)"
    using reachable_hist_ok[OF assms(1)] by (simp add: hist_ok_def)
  define s1 where "s1 = s\<lparr>drawing_items := remove1 r (drawing_items s)\<rparr>"
  have k: "keyPressEvent k s = finish_inline_text_editing s1"
    using assms(2-4) by (simp add: keyPressEvent_def s1_def remove1_idem)
  have gone: "r \<notin> set (remove1 r (drawing_items s))" using d by simp
  have "drawing_items (finish_inline_text_editing s1) = remove1 r (drawing_items s)"
    using assms(2,3) gone
    by (simp add: finish_drawing_items s1_def remove1_idem)
  then show ?thesis
    unfolding k using gone
    by (simp add: finish_other_fields finish_not_editing s1_def)
qed



text \<open>Witness for C5 (amended): Escape in \<open>demo_text_reedit\<close>, a session on the committed
  item \<open>Hi\<close> with nothing typed yet.\<close>

theorem escape_ends_text_session_witness:
  "reachable demo_text_reedit \<and> inline_editing demo_text_reedit
   \<and> editing_text_item demo_text_reedit = Some 0
   \<and> drawing_items demo_text_reedit = [0]
   \<and> \<not> inline_editing (keyPressEvent (pressed Key_Escape NoModifier) demo_text_reedit)
   \<and> drawing_items (keyPressEvent (pressed Key_Escape NoModifier) demo_text_reedit) = []
   \<and> result (keyPressEvent (pressed Key_Escape NoModifier) demo_text_reedit) = None
   \<and> \<not> closed (keyPressEvent (pressed Key_Escape NoModifier) demo_text_reedit)"
proof -
  have h: "inline_editing demo_text_reedit" "editing_text_item demo_text_reedit = Some 0"
    "drawing_items demo_text_reedit = [0]" "result demo_text_reedit = None"
    "\<not> closed demo_text_reedit"
    unfolding demo_eqs by code_simp+
  have k: "key (pressed Key_Escape NoModifier) = Key_Escape" by (simp add: pressed_def)
  show ?thesis
    using escape_ends_text_session[OF reachable_demo_text_reedit h(1,2) k] h
      reachable_demo_text_reedit
    by simp
qed

text \<open>
  Counterexample to C5 as claimed: in \<open>demo_text_typed\<close> the committed item \<open>Hi\<close> is
  being edited and the buffer is \<open>Hi!\<close>. After Escape the item, which was not newly
  created, is no longer in the committed list, and its content is not the prior
  \<open>Hi\<close> but the buffer.
\<close>

theorem escape_removes_existing_item_counterexample:
  "0 \<in> set (drawing_items demo_text_typed)
   \<and> text_content (objs demo_text_typed ! 0) = ''Hi''
   \<and> text_input_buffer demo_text_typed = ''Hi!''
   \<and> 0 \<notin> set (drawing_items (keyPressEvent (pressed Key_Escape NoModifier) demo_text_typed))
   \<and> text_content (objs (keyPressEvent (pressed Key_Escape NoModifier) demo_text_typed) ! 0)
       = ''Hi!''"
  unfolding demo_eqs by code_simp

section \<open>The points of a drawn shape\<close>

lemma text_tool_drag_other:
  "current_tool t \<noteq> text_tool \<Longrightarrow> move_text_tool_drag ev t = t"
  by (simp add: move_text_tool_drag_def)

lemma drawing_shape_timer:
  "drawing_shape r ps s0 (s\<lparr>text_press_timer := t\<rparr>) = drawing_shape r ps s0 s"
  by (simp add: drawing_shape_def)

lemma drawing_shape_move:
  assumes "drawing_shape r ps s0 s"
  shows "drawing_shape r (ps @ [ev_pos ev]) s0 (mouseMoveEvent ev s)"
proof -
  obtain t where s1: "move_cancel_long_press ev s = s\<lparr>text_press_timer := t\<rparr>"
    using cancel_long_press_eq by blast
  let ?s1 = "s\<lparr>text_press_timer := t\<rparr>"
  have a: "drawing_shape r ps s0 ?s1" using assms by (simp add: drawing_shape_timer)
  have s2: "move_text_tool_drag ev ?s1 = ?s1"
    using a by (intro text_tool_drag_other) (auto simp: drawing_shape_def)
  have d: "drawing_in_progress ?s1 = Some r"
    using a by (simp add: drawing_in_progress_def drawing_shape_def)
  have m: "mouseMoveEvent ev s = upd_item r (add_point (ev_pos ev)) ?s1"
    by (simp add: mouseMoveEvent_def move_gesture_def s1 s2 d)
  show ?thesis
    unfolding m using a
    by (simp add: drawing_shape_def upd_item_def add_point_def)
qed

lemma drawing_shape_moves:
  assumes "drawing_shape r ps s0 s"
  shows "drawing_shape r (ps @ map ev_pos ms) s0 (foldl (\<lambda>t m. mouseMoveEvent m t) s ms)"
  using assms
proof (induction ms arbitrary: s ps)
  case Nil
  then show ?case by simp
next
  case (Cons m ms)
  have "drawing_shape r ((ps @ [ev_pos m]) @ map ev_pos ms) s0
          (foldl (\<lambda>t m. mouseMoveEvent m t) (mouseMoveEvent m s) ms)"
    by (rule Cons.IH[OF drawing_shape_move[OF Cons.prems]])
  then show ?case by simp
qed

lemma release_click_edit_cases:
  "release_click_edit ev s = s \<or> (\<exists>x. release_click_edit ev s = start_inline_text_editing x s)"
  by (auto simp: release_click_edit_def split: option.splits)

lemma drawing_shape_start_editing:
  "drawing_shape r ps s0 (start_inline_text_editing x s) = drawing_shape r ps s0 s"
  by (simp add: drawing_shape_def start_inline_text_editing_def)

lemma drawing_shape_release:
  assumes "drawing_shape r ps s0 s" "ev_button ev = LeftButton"
  shows "drawing_items (mouseReleaseEvent ev s) = drawing_items s0 @ [r]
         \<and> undo_stack (mouseReleaseEvent ev s) = undo_stack s0 @ [r]
         \<and> current_drawing_item (mouseReleaseEvent ev s) = None
         \<and> tool_type (objs (mouseReleaseEvent ev s) ! r) = current_tool s0
         \<and> points (objs (mouseReleaseEvent ev s) ! r) = ps @ [ev_pos ev]"
proof -
  define s1 where "s1 = release_click_edit ev (s\<lparr>text_press_timer := None\<rparr>)"
  define s3 where "s3 = s1\<lparr>is_long_pressing := False, text_press_start_pos := nullPoint\<rparr>"
  have a0: "drawing_shape r ps s0 (s\<lparr>text_press_timer := None\<rparr>)"
    using assms(1) by (simp add: drawing_shape_timer)
  have a1: "drawing_shape r ps s0 s1"
    using release_click_edit_cases[of ev "s\<lparr>text_press_timer := None\<rparr>"] a0
    unfolding s1_def by (auto simp: drawing_shape_start_editing)
  have a3: "drawing_shape r ps s0 s3"
    using a1 by (simp add: s3_def drawing_shape_def)
  have d: "drawing_in_progress s3 = Some r" "\<not> text_dragging s3" "\<not> text_resizing s3"
    using a3 by (simp_all add: drawing_in_progress_def drawing_shape_def)
  have m: "mouseReleaseEvent ev s = release_drawing r ev s3"
    using assms(2) d by (simp add: mouseReleaseEvent_def release_gesture_def s3_def s1_def)
  have nt: "current_tool (upd_item r (add_point (ev_pos ev)) s3) \<noteq> text_tool"
    using a3 by (auto simp: drawing_shape_def upd_item_def)
  have "release_drawing r ev s3 =
      (commit_item r (upd_item r (add_point (ev_pos ev)) s3))
        \<lparr>current_drawing_item := None, text_tool_start_pos := nullPoint,
         text_tool_is_dragging := False\<rparr>"
    using nt by (simp add: release_drawing_def Let_def)
  then show ?thesis
    unfolding m using a3
    by (simp add: drawing_shape_def commit_item_def upd_item_def add_point_def)
qed

lemma contains_adjusted_item_rect:
  assumes "contains (item_rect it) p"
  shows "contains (adjusted (- 12) (- 12) 12 12 (item_rect it)) p"
  using assms
  by (simp add: item_rect_def contains_def adjusted_def normalized_def rectPP_def Let_def
      split: if_splits)

lemma no_text_no_double_click:
  assumes "\<not> clicked_on_text (ev_pos ev) s" "contains (selection_rect s) (ev_pos ev)"
  shows "press_double_click ev s = Continue s"
proof -
  have "\<not> editable_text_at (ev_pos ev) s r" if "r \<in> set (drawing_items s)" for r
    using assms that contains_adjusted_item_rect[of "objs s ! r" "ev_pos ev"]
    by (auto simp: clicked_on_text_def editable_text_at_def list_ex_iff Let_def)
  then have "find (editable_text_at (ev_pos ev) s) (drawing_items s) = None"
    by (simp add: find_None_iff)
  then show ?thesis by (simp add: press_double_click_def)
qed

lemma press_starts_shape:
  assumes "ev_button ev = LeftButton" "\<not> inline_editing s" "drawing_mode s"
    "current_tool s \<noteq> text_tool"
    "\<not> isEmpty (selection_rect s)" "contains (selection_rect s) (ev_pos ev)"
    "\<not> clicked_on_text (ev_pos ev) s" "\<not> text_dragging s" "\<not> text_resizing s"
  shows "drawing_shape (length (objs s)) [ev_pos ev] s (mousePressEvent ev s)"
proof -
  define s3 where "s3 = s\<lparr>last_click_time := ev_time ev, last_click_pos := ev_pos ev\<rparr>"
  have e: "press_editing ev s = Continue s"
    using assms(2) by (simp add: press_editing_def split: option.splits)
  have dc: "press_double_click ev s = Continue s"
    using assms(6,7) by (rule no_text_no_double_click[rotated])
  have c3: "\<not> clicked_on_text (ev_pos ev) s3"
    using assms(7) by (simp add: clicked_on_text_def s3_def)
  define it where "it = add_point (ev_pos ev)
      (DrawingItem_init (current_tool s) (drawing_color s) (drawing_width s))"
  have pd: "press_drawing ev s3 =
      Return (s3\<lparr>objs := objs s @ [it], current_drawing_item := Some (length (objs s)),
               drawing_start_point := Some (ev_pos ev)\<rparr>)"
    using assms(3-6) c3
    by (simp add: press_drawing_def Let_def new_item_def s3_def it_def)
  have m: "mousePressEvent ev s =
      s3\<lparr>objs := objs s @ [it], current_drawing_item := Some (length (objs s)),
         drawing_start_point := Some (ev_pos ev)\<rparr>"
    using assms(1) by (simp add: mousePressEvent_def e dc pd s3_def[symmetric] Let_def)
  show ?thesis
    unfolding m using assms(3,4,8,9)
    by (simp add: drawing_shape_def s3_def it_def add_point_def DrawingItem_init_def)
qed

text \<open>
  C6, as the code has it. While a Rectangle, Circle or Arrow gesture is in progress,
  each pointer move appends the current position to the item's points, as it does for
  the pen, and the release appends the release position. The committed item's points
  are the press position, every move position and the release position, in order: its
  first and its last point are the two corners the shape is drawn from.
\<close>

theorem shape_gesture_points:
  assumes "ev_button press = LeftButton" "ev_button release = LeftButton"
    and "\<not> inline_editing s" "\<not> text_dragging s" "\<not> text_resizing s"
    and "drawing_mode s" "current_tool s \<in> {rectangle, circle, arrow}"
    and "\<not> isEmpty (selection_rect s)" "contains (selection_rect s) (ev_pos press)"
    and "\<not> clicked_on_text (ev_pos press) s"
  shows "drawing_items (gesture press moves release s) = drawing_items s @ [length (objs s)]
         \<and> undo_stack (gesture press moves release s) = undo_stack s @ [length (objs s)]
         \<and> tool_type (objs (gesture press moves release s) ! length (objs s)) = current_tool s
         \<and> points (objs (gesture press moves release s) ! length (objs s))
            = ev_pos press # map ev_pos moves @ [ev_pos release]
         \<and> item_rect (objs (gesture press moves release s) ! length (objs s))
            = normalized (rectPP (ev_pos press) (ev_pos release))"
proof -
  have nt: "current_tool s \<noteq> text_tool" using assms(7) by auto
  have p: "drawing_shape (length (objs s)) [ev_pos press] s (mousePressEvent press s)"
    by (rule press_starts_shape[OF assms(1,3,6) nt assms(8,9,10,4,5)])
  note m = drawing_shape_moves[OF p, of moves]
  note r = drawing_shape_release[OF m assms(2)]
  have pts: "points (objs (gesture press moves release s) ! length (objs s))
            = ev_pos press # map ev_pos moves @ [ev_pos release]"
    using r by (simp add: gesture_def)
  have "item_rect (objs (gesture press moves release s) ! length (objs s))
            = normalized (rectPP (ev_pos press) (ev_pos release))"
    unfolding item_rect_def pts by simp
  then show ?thesis using r pts by (simp add: gesture_def)
qed

text \<open>Witness for C6 (amended): in \<open>demo_selected\<close> with the arrow tool, a drag from
  (150,150) over (200,150) to (250,150).\<close>

theorem shape_gesture_points_witness:
  "drawing_items
     (gesture (mouse 150 150 5000) [mouse 200 150 5100, mouse 250 150 5150]
        (mouse 250 150 5200) (set_drawing_tool arrow demo_selected)) = [0]
   \<and> tool_type
       (objs (gesture (mouse 150 150 5000) [mouse 200 150 5100, mouse 250 150 5150]
                (mouse 250 150 5200) (set_drawing_tool arrow demo_selected)) ! 0) = arrow
   \<and> points
       (objs (gesture (mouse 150 150 5000) [mouse 200 150 5100, mouse 250 150 5150]
                (mouse 250 150 5200) (set_drawing_tool arrow demo_selected)) ! 0)
       = [mkPoint 150 150, mkPoint 200 150, mkPoint 250 150, mkPoint 250 150]"
proof -
  let ?s = "set_drawing_tool arrow demo_selected"
  have h: "\<not> inline_editing ?s" "\<not> text_dragging ?s" "\<not> text_resizing ?s"
    "drawing_mode ?s" "current_tool ?s \<in> {rectangle, circle, arrow}"
    "\<not> isEmpty (selection_rect ?s)"
    "contains (selection_rect ?s) (ev_pos (mouse 150 150 5000))"
    "\<not> clicked_on_text (ev_pos (mouse 150 150 5000)) ?s"
    unfolding demo_eqs by code_simp+
  have b: "ev_button (mouse 150 150 5000) = LeftButton"
    "ev_button (mouse 250 150 5200) = LeftButton"
    by (simp_all add: mouse_def)
  have v: "length (objs ?s) = 0" "drawing_items ?s = []" "current_tool ?s = arrow"
    unfolding demo_eqs by code_simp+
  show ?thesis
    using shape_gesture_points[OF b h, where moves = "[mouse 200 150 5100, mouse 250 150 5150]"]
    unfolding v by (simp add: mouse_def)
qed

text \<open>
  Counterexample to C6 as claimed: the arrow pressed at (150,150) in
  \<open>demo_arrow_pressed\<close>, moved to (250,150) and released there, is committed with
  three points, not with the two corner points.
\<close>

theorem arrow_points_counterexample:
  "points (objs (mouseReleaseEvent (mouse 250 150 5200)
                   (mouseMoveEvent (mouse 250 150 5100) demo_arrow_pressed)) ! 0)
     = [mkPoint 150 150, mkPoint 250 150, mkPoint 250 150]
   \<and> points (objs (mouseReleaseEvent (mouse 250 150 5200)
                     (mouseMoveEvent (mouse 250 150 5100) demo_arrow_pressed)) ! 0)
     \<noteq> [mkPoint 150 150, mkPoint 250 150]
   \<and> drawing_items (mouseReleaseEvent (mouse 250 150 5200)
                      (mouseMoveEvent (mouse 250 150 5100) demo_arrow_pressed)) = [0]"
  unfolding demo_eqs by code_simp

section \<open>What a press hits\<close>











section \<open>The exported image\<close>






section \<open>Input-method commit and the font-size keys\<close>

text \<open>An input-method commit and a paste of the same string always agree on the
  buffer and on the cursor; the pre-edit text after the event is the event's; and the
  commit moves the selection range only when something was selected.\<close>

lemma ime_commit_buffer_cursor:
  assumes "inline_editing s" "c \<noteq> []"
  shows "text_input_buffer (inputMethodEvent \<lparr>commitString = c, preeditString = p\<rparr> s)
           = text_input_buffer
               (keyPressEvent (pressed Key_V ControlModifier) (s\<lparr>clipboard := c\<rparr>))"
    and "cursor_position (inputMethodEvent \<lparr>commitString = c, preeditString = p\<rparr> s)
           = cursor_position
               (keyPressEvent (pressed Key_V ControlModifier) (s\<lparr>clipboard := c\<rparr>))"
    and "preedit_text (inputMethodEvent \<lparr>commitString = c, preeditString = p\<rparr> s) = p"
  using assms
  by (simp_all add: inputMethodEvent_def keyPressEvent_def pressed_def insert_text_def Let_def)

lemma ime_commit_selection:
  assumes "inline_editing s" "c \<noteq> []"
  shows "text_selection_start (inputMethodEvent \<lparr>commitString = c, preeditString = p\<rparr> s)
           = (if text_selection_start s \<noteq> text_selection_end s
              then cursor_position
                     (inputMethodEvent \<lparr>commitString = c, preeditString = p\<rparr> s)
              else text_selection_start s)"
  using assms
  by (simp add: inputMethodEvent_def Let_def)

text \<open>The Up arrow bounds the size from above only, the Down arrow from below only;
  both switch the item to the custom mode.\<close>

lemma font_step_bounds:
  "custom_font_size (font_step_up it) \<le> 100"
  "8 \<le> custom_font_size (font_step_down it)"
  "text_size_mode (font_step_up it) = custom_mode"
  "text_size_mode (font_step_down it) = custom_mode"
  by (simp_all add: font_step_up_def font_step_down_def Let_def)

text \<open>
  C8. Claimed: committing an input-method string changes the buffer, the cursor and
  the selection range exactly as pasting the same string does. The code does not
  collapse the selection onto the cursor when nothing is selected: in the new, empty
  session of \<open>demo_text_new\<close>, committing \<open>ab\<close> and pasting \<open>ab\<close> give the same
  buffer and cursor, but the paste leaves the selection range at (2,2), where the
  cursor is, and the commit leaves it at (0,0).
\<close>

theorem ime_commit_selection_differs_from_paste:
  "text_input_buffer
     (inputMethodEvent \<lparr>commitString = ''ab'', preeditString = []\<rparr>
        (demo_text_new\<lparr>clipboard := ''ab''\<rparr>)) = ''ab''
   \<and> text_input_buffer
       (keyPressEvent (pressed Key_V ControlModifier) (demo_text_new\<lparr>clipboard := ''ab''\<rparr>))
       = ''ab''
   \<and> cursor_position
       (inputMethodEvent \<lparr>commitString = ''ab'', preeditString = []\<rparr>
          (demo_text_new\<lparr>clipboard := ''ab''\<rparr>)) = 2
   \<and> cursor_position
       (keyPressEvent (pressed Key_V ControlModifier) (demo_text_new\<lparr>clipboard := ''ab''\<rparr>))
       = 2
   \<and> text_selection_start
       (keyPressEvent (pressed Key_V ControlModifier) (demo_text_new\<lparr>clipboard := ''ab''\<rparr>))
       = 2
   \<and> text_selection_end
       (keyPressEvent (pressed Key_V ControlModifier) (demo_text_new\<lparr>clipboard := ''ab''\<rparr>))
       = 2
   \<and> text_selection_start
       (inputMethodEvent \<lparr>commitString = ''ab'', preeditString = []\<rparr>
          (demo_text_new\<lparr>clipboard := ''ab''\<rparr>)) = 0
   \<and> text_selection_end
       (inputMethodEvent \<lparr>commitString = ''ab'', preeditString = []\<rparr>
          (demo_text_new\<lparr>clipboard := ''ab''\<rparr>)) = 0"
  unfolding demo_eqs by code_simp

text \<open>
  C9. Claimed: the Up and Down arrows change the font size by 2 pixels and the result
  is always within 8 to 100. The Up arrow only applies the upper bound: the text item
  of \<open>demo_text_new\<close>, created with the default stroke width 3, has the initial size
  3, and one press of Up gives it the custom size 5.
\<close>

theorem font_step_up_below_minimum:
  "initial_font_size (objs demo_text_new ! 0) = 3
   \<and> text_size_mode (objs demo_text_new ! 0) = auto_mode
   \<and> editing_text_item demo_text_new = Some 0
   \<and> text_size_mode (objs (keyPressEvent (pressed Key_Up NoModifier) demo_text_new) ! 0)
       = custom_mode
   \<and> custom_font_size (objs (keyPressEvent (pressed Key_Up NoModifier) demo_text_new) ! 0)
       = 5"
  unfolding demo_eqs by code_simp

end
